theory Spec2Isabelle
  imports Complex_Main "HOL-Library.Sublist"
begin

section \<open>Configuration and run state\<close>

text \<open>
  The fields of \<^verbatim>\<open>config.Config\<close> that the iteration control loop reads.  Go's \<^verbatim>\<open>int\<close> and
  \<^verbatim>\<open>time.Duration\<close> (nanoseconds) are modelled as \<open>int\<close>: the loop only compares them and
  counts upwards from zero.  The cost fields are \<^verbatim>\<open>float64\<close> in the source; the model keeps
  their type abstract (\<open>'c\<close>) and uses nothing but the operations the code applies to them
  (\<open>0\<close>, \<open><\<close>, \<open>\<le>\<close>, \<open>+\<close>), so no law of real arithmetic is assumed for them.
\<close>

record 'c Config =
  MaxRuns :: int
  MaxCost :: 'c
  MaxDuration :: int
  MergeStrategy :: string
  DisableCommits :: bool
  DryRun :: bool
  CompletionSignal :: string
  CompletionThreshold :: int

definition HasMaxRuns :: "'c Config \<Rightarrow> bool" where
  "HasMaxRuns c = (MaxRuns c > 0)"

definition HasMaxCost :: "('c::{zero,ord}) Config \<Rightarrow> bool" where
  "HasMaxCost c = (MaxCost c > 0)"

definition HasMaxDuration :: "'c Config \<Rightarrow> bool" where
  "HasMaxDuration c = (MaxDuration c > 0)"

text \<open>
  The mutable fields of \<^verbatim>\<open>orchestrator.Orchestrator\<close>.  \<^verbatim>\<open>startTime\<close> is not stored: every
  function that calls \<^verbatim>\<open>time.Since(o.startTime)\<close> takes the elapsed time as an argument.
\<close>

record 'c Orchestrator =
  iteration :: int
  totalCost :: 'c
  completionSignalCount :: int
  baseBranch :: string

section \<open>Limit policy: \<^verbatim>\<open>checkStopConditions\<close>\<close>

text \<open>
  The reason is a formatted string in the source; the model keeps the format's case and
  its argument.  \<open>NoReason\<close> is the empty string returned with \<^verbatim>\<open>false\<close>.
\<close>

datatype 'c stop_reason =
    ReachedMaxIterations int
  | ReachedMaxCost 'c
  | ReachedMaxDuration int
  | CompletionSignalDetected
  | NoReason

definition checkStopConditions ::
  "('c::{zero,ord}) Config \<Rightarrow> 'c Orchestrator \<Rightarrow> int \<Rightarrow> bool \<times> 'c stop_reason" where
  "checkStopConditions cfg st since =
     (if HasMaxRuns cfg \<and> iteration st > MaxRuns cfg
        then (True, ReachedMaxIterations (MaxRuns cfg))
      else if HasMaxCost cfg \<and> totalCost st \<ge> MaxCost cfg
        then (True, ReachedMaxCost (MaxCost cfg))
      else if HasMaxDuration cfg \<and> since \<ge> MaxDuration cfg
        then (True, ReachedMaxDuration (MaxDuration cfg))
      else if completionSignalCount st \<ge> CompletionThreshold cfg
        then (True, CompletionSignalDetected)
      else (False, NoReason))"

section \<open>Review lifecycle tracker: \<^verbatim>\<open>GetPRStatus\<close>\<close>

record PRCheck =
  Name :: string
  State :: string
  Bucket :: string

record PRStatus =
  Checks :: "PRCheck list"
  ReviewDecision :: string
  IsMergeable :: bool
  AllChecksPassed :: bool
  HasPendingChecks :: bool
  HasFailedChecks :: bool

text \<open>The body of the \<^verbatim>\<open>for _, check := range checks\<close> loop: one \<^verbatim>\<open>switch\<close> on the raw state.\<close>

definition passedStates :: "string list" where
  "passedStates = [''SUCCESS'', ''NEUTRAL'', ''SKIPPED'']"

definition pendingStates :: "string list" where
  "pendingStates = [''PENDING'', ''QUEUED'', ''IN_PROGRESS'']"

definition failedStates :: "string list" where
  "failedStates = [''FAILURE'', ''ERROR'', ''CANCELLED'', ''TIMED_OUT'', ''ACTION_REQUIRED'']"

definition analyzeCheck :: "PRStatus \<Rightarrow> PRCheck \<Rightarrow> PRStatus" where
  "analyzeCheck status check =
     (if State check \<in> set passedStates then status
      else if State check \<in> set pendingStates then status\<lparr>HasPendingChecks := True\<rparr>
      else if State check \<in> set failedStates then status\<lparr>HasFailedChecks := True\<rparr>
      else status)"

text \<open>
  \<^verbatim>\<open>GetPRStatus\<close> receives the outcomes of its two queries (\<^verbatim>\<open>GetPRChecks\<close>,
  \<^verbatim>\<open>GetPRReviewDecision\<close>): \<open>Inl\<close> is the error text, \<open>Inr\<close> the decoded answer.
\<close>

definition GetPRStatus :: "string + PRCheck list \<Rightarrow> string + string \<Rightarrow> string + PRStatus" where
  "GetPRStatus checksQ decisionQ =
     (case checksQ of
        Inl err \<Rightarrow> Inl err
      | Inr checks \<Rightarrow>
         (case decisionQ of
            Inl err \<Rightarrow> Inl err
          | Inr reviewDecision \<Rightarrow>
             (let status = \<lparr>Checks = checks, ReviewDecision = reviewDecision,
                            IsMergeable = False, AllChecksPassed = False,
                            HasPendingChecks = False, HasFailedChecks = False\<rparr>;
                  status = foldl analyzeCheck status checks;
                  status = status\<lparr>AllChecksPassed :=
                             (length checks = 0 \<or>
                              (\<not> HasPendingChecks status \<and> \<not> HasFailedChecks status))\<rparr>;
                  status = status\<lparr>IsMergeable :=
                             (AllChecksPassed status \<and>
                              (reviewDecision = '''' \<or> reviewDecision = ''APPROVED''))\<rparr>
              in Inr status)))"


section \<open>Review lifecycle tracker: \<^verbatim>\<open>WaitForChecks\<close>\<close>

definition hasStatusChanged :: "PRStatus option \<Rightarrow> PRStatus \<Rightarrow> bool" where
  "hasStatusChanged old new =
     (case old of
        None \<Rightarrow> True
      | Some old \<Rightarrow>
          (if AllChecksPassed old \<noteq> AllChecksPassed new then True
           else if HasPendingChecks old \<noteq> HasPendingChecks new then True
           else if HasFailedChecks old \<noteq> HasFailedChecks new then True
           else if ReviewDecision old \<noteq> ReviewDecision new then True
           else False))"

text \<open>
  What the review system and the clock do while \<^verbatim>\<open>WaitForChecks\<close> runs.  Round \<open>k\<close> is the
  \<open>k\<close>-th pass through the loop body: its two queries answer \<open>checksQ k\<close> and
  \<open>decisionQ k\<close>.  Times are nanoseconds.  \<open>startLag\<close> is the time between computing the
  deadline and the first loop test; a non-terminal round lasts \<open>pollInterval + lag k\<close>, since
  \<^verbatim>\<open>time.Sleep(pollInterval)\<close> pauses for at least \<open>pollInterval\<close>.
\<close>

record ReviewEnv =
  checksQ :: "nat \<Rightarrow> string + PRCheck list"
  decisionQ :: "nat \<Rightarrow> string + string"
  startLag :: nat
  lag :: "nat \<Rightarrow> nat"

datatype wait_error = PollFailed string | TimeoutWaiting int

definition pollInterval :: int where
  "pollInterval = 10 * 1000000000"

text \<open>
  The \<^verbatim>\<open>for time.Now().Before(deadline)\<close> loop.  \<open>now\<close> is the clock reading of the loop
  test, \<open>notified\<close> collects the snapshots handed to \<^verbatim>\<open>onStatusChange\<close> (the only caller
  passes a callback).  The result is the returned \<^verbatim>\<open>*PRStatus\<close> (\<open>None\<close> is \<^verbatim>\<open>nil\<close>), the
  returned error and the callback's arguments in order.
\<close>

function WaitLoop ::
  "ReviewEnv \<Rightarrow> int \<Rightarrow> int \<Rightarrow> int \<Rightarrow> nat \<Rightarrow> PRStatus option \<Rightarrow> PRStatus list \<Rightarrow>
   PRStatus option \<times> wait_error option \<times> PRStatus list" where
  "WaitLoop env timeout deadline now k lastStatus notified =
     (if now < deadline then
        (case GetPRStatus (checksQ env k) (decisionQ env k) of
           Inl err \<Rightarrow> (None, Some (PollFailed err), notified)
         | Inr status \<Rightarrow>
             (if HasFailedChecks status then
                (Some status, None,
                 if hasStatusChanged lastStatus status then notified @ [status] else notified)
              else if AllChecksPassed status then
                (Some status, None,
                 if hasStatusChanged lastStatus status then notified @ [status] else notified)
              else
                WaitLoop env timeout deadline (now + pollInterval + int (lag env k)) (Suc k)
                  (Some status)
                  (if hasStatusChanged lastStatus status then notified @ [status]
                   else notified)))
      else (lastStatus, Some (TimeoutWaiting timeout), notified))"
  by pat_completeness auto
termination
  by (relation "measure (\<lambda>(env, timeout, deadline, now, k, lastStatus, notified).
                           nat (deadline - now))")
     (auto simp: pollInterval_def)

declare WaitLoop.simps [simp del]

definition WaitForChecks ::
  "ReviewEnv \<Rightarrow> int \<Rightarrow> int \<Rightarrow> PRStatus option \<times> wait_error option \<times> PRStatus list" where
  "WaitForChecks env start timeout =
     (let deadline = start + timeout
      in WaitLoop env timeout deadline (start + int (startLag env)) 0 None [])"

section \<open>Retry executor: \<^verbatim>\<open>PushWithRetry\<close>\<close>

text \<open>\<^verbatim>\<open>strings.Contains(s, substr)\<close>: \<open>substr\<close> occurs in \<open>s\<close> as a contiguous run of bytes.\<close>

definition strings_Contains :: "string \<Rightarrow> string \<Rightarrow> bool" where
  "strings_Contains s substr = sublist substr s"

text \<open>An \<^verbatim>\<open>error\<close> is represented by its text (\<^verbatim>\<open>err.Error()\<close>), \<^verbatim>\<open>nil\<close> by \<open>None\<close>.\<close>

definition isNetworkError :: "string option \<Rightarrow> bool" where
  "isNetworkError err =
     (case err of
        None \<Rightarrow> False
      | Some errStr \<Rightarrow>
          strings_Contains errStr ''Could not resolve host'' \<or>
          strings_Contains errStr ''Connection refused'' \<or>
          strings_Contains errStr ''Network is unreachable'' \<or>
          strings_Contains errStr ''Connection timed out'' \<or>
          strings_Contains errStr ''SSL'' \<or>
          strings_Contains errStr ''443'')"

text \<open>
  \<^verbatim>\<open>time.Duration\<close> is a signed 64-bit count of nanoseconds, so \<^verbatim>\<open>backoff *= 2\<close> wraps.
\<close>

definition wrap64 :: "int \<Rightarrow> int" where
  "wrap64 x = (x + 2 ^ 63) mod 2 ^ 64 - 2 ^ 63"

definition second :: int where
  "second = 1000000000"

text \<open>
  The error \<^verbatim>\<open>PushWithRetry\<close> returns: either the error of the last \<^verbatim>\<open>Push\<close> unchanged, or
  \<^verbatim>\<open>fmt.Errorf("push failed after %d retries: %w", maxRetries, lastErr)\<close>.
\<close>

datatype push_error = PushError string | PushFailedAfter int "string option"

datatype push_event = Sleep int | PushAttempt

text \<open>
  The \<^verbatim>\<open>for i := 0; i <= maxRetries; i++\<close> loop.  \<open>push k\<close> is the outcome of the \<open>k\<close>-th call
  of \<^verbatim>\<open>c.Push(branch)\<close>, counted from 0.  The events are the calls of \<^verbatim>\<open>time.Sleep\<close> (with
  their argument) and of \<^verbatim>\<open>Push\<close>, in order.  The counter \<open>i\<close> itself is not wrapped: that
  would take \<open>2 ^ 63\<close> pushes.
\<close>

function PushLoop ::
  "(nat \<Rightarrow> string option) \<Rightarrow> int \<Rightarrow> int \<Rightarrow> int \<Rightarrow> string option \<Rightarrow> push_event list \<Rightarrow>
   push_error option \<times> push_event list" where
  "PushLoop push maxRetries i backoff lastErr events =
     (if i \<le> maxRetries then
        (let events = (if i > 0 then events @ [Sleep backoff] else events);
             backoff = (if i > 0 then wrap64 (backoff * 2) else backoff);
             err = push (nat i);
             events = events @ [PushAttempt]
         in case err of
              None \<Rightarrow> (None, events)
            | Some e \<Rightarrow>
                if \<not> isNetworkError err then (Some (PushError e), events)
                else PushLoop push maxRetries (i + 1) backoff err events)
      else (Some (PushFailedAfter maxRetries lastErr), events))"
  by pat_completeness auto
termination
  by (relation "measure (\<lambda>(push, maxRetries, i, backoff, lastErr, events).
                           nat (maxRetries + 1 - i))")
     auto

declare PushLoop.simps [simp del]

definition PushWithRetry ::
  "(nat \<Rightarrow> string option) \<Rightarrow> int \<Rightarrow> push_error option \<times> push_event list" where
  "PushWithRetry push maxRetries = PushLoop push maxRetries 0 (2 * second) None []"

section \<open>Agent invocation: \<^verbatim>\<open>Client.Run\<close> and the completion signal\<close>

record 'c Result =
  Output :: string
  Cost :: 'c
  IsError :: bool
  RawOutput :: string

text \<open>What \<^verbatim>\<open>cmd.Run()\<close> left behind: its error (\<open>None\<close> is \<^verbatim>\<open>nil\<close>) and the two buffers.\<close>

record ProcResult =
  exitErr :: "string option"
  stdout :: string
  stderr :: string

text \<open>
  \<^verbatim>\<open>parseClaudeOutput\<close> decodes JSON with the standard library; it is a parameter here.  It
  either fails (\<open>Inl\<close>) and leaves the result untouched, or succeeds and leaves
  \<^verbatim>\<open>Output\<close>, \<^verbatim>\<open>Cost\<close> and \<^verbatim>\<open>IsError\<close> in the freshly allocated result (\<open>Inr\<close>).
\<close>

type_synonym 'c parser = "string \<Rightarrow> string + (string \<times> 'c \<times> bool)"

definition ClientRun :: "('c::zero) parser \<Rightarrow> ProcResult \<Rightarrow> 'c Result \<times> string option" where
  "ClientRun parseClaudeOutput proc =
     (let err = exitErr proc;
          rawOutput = stdout proc;
          result = \<lparr>Output = '''', Cost = 0, IsError = False, RawOutput = rawOutput\<rparr>;
          result = (if rawOutput \<noteq> '''' then
                      (case parseClaudeOutput rawOutput of
                         Inl perr \<Rightarrow> result\<lparr>Output := rawOutput\<rparr>
                       | Inr (out, cost, isErr) \<Rightarrow>
                           result\<lparr>Output := out, Cost := cost, IsError := isErr\<rparr>)
                    else result)
      in if err \<noteq> None then
           (let result = result\<lparr>IsError := True\<rparr>;
                result = (if length (stderr proc) > 0 then result\<lparr>Output := stderr proc\<rparr>
                          else result)
            in (result, None))
         else (result, None))"

definition ContainsCompletionSignal :: "string \<Rightarrow> string \<Rightarrow> bool" where
  "ContainsCompletionSignal output signal =
     (if signal = '''' then False else strings_Contains output signal)"

section \<open>Iteration driver: \<^verbatim>\<open>runIteration\<close> and \<^verbatim>\<open>Run\<close>\<close>

text \<open>
  The answers of the collaborators during one iteration.  An operation whose error the
  driver ignores (\<^verbatim>\<open>_ = o.git.SwitchBranch(...)\<close> and the like) has no entry.  The prompt,
  the notes and the title and body of the pull request do not influence the control flow
  and are left out; \<open>branchName\<close> is the result of \<^verbatim>\<open>GenerateBranchName\<close>, \<open>gitPush k\<close> the
  error of the \<open>k\<close>-th call of \<^verbatim>\<open>Push\<close>, and \<open>waitStart\<close> the clock reading when
  \<^verbatim>\<open>WaitForChecks\<close> is called.
\<close>

record IterEnv =
  branchName :: string
  createBranch :: "string option"
  claudeProc :: ProcResult
  stageAll :: "string option"
  hasChanges :: "string + bool"
  runCommit :: "string option"
  gitPush :: "nat \<Rightarrow> string option"
  createPR :: "string + string"
  waitStart :: int
  review :: ReviewEnv
  mergePR :: "string option"

text \<open>The errors \<^verbatim>\<open>runIteration\<close> returns, one constructor for each \<^verbatim>\<open>fmt.Errorf\<close>.\<close>

datatype iter_error =
    FailedCreateBranch string
  | ClaudeExecutionFailed string
  | FailedStageChanges string
  | FailedCheckChanges string
  | FailedCreateCommit string
  | FailedPush push_error
  | FailedCreatePR string
  | FailedMergePR string

text \<open>The calls on the collaborators and the log lines of the driver, as a trace.\<close>

datatype action =
    GitCreateBranch string
  | ClaudeRun
  | GitSwitchBranch string
  | GitDeleteBranch string
  | GitStageAll
  | GitHasChanges
  | ClaudeRunCommit
  | GitPushWithRetry "push_event list"
  | GhCreatePR string
  | GhWaitForChecks
  | UiWarningTimeout wait_error
  | GhClosePR bool
  | GhMergePR string
  | GitPull string
  | UiIterationFailed int iter_error
  | UiStopping

text \<open>
  How a call of \<^verbatim>\<open>runIteration\<close> ends: it returns its error value, or it panics on the
  dereference of a \<^verbatim>\<open>nil\<close> status.
\<close>

datatype outcome = Returned "iter_error option" | Panicked

text \<open>Lines 288 to 334 of the driver: wait for the checks, then close, leave open, or merge.\<close>

definition reviewAndMerge ::
  "'c Config \<Rightarrow> 'c Orchestrator \<Rightarrow> IterEnv \<Rightarrow> outcome \<times> action list" where
  "reviewAndMerge cfg st env =
     (case WaitForChecks (review env) (waitStart env) (30 * 60 * second) of
        (status, err, notified) \<Rightarrow>
          (let log = [GhWaitForChecks] @
                     (case err of None \<Rightarrow> [] | Some e \<Rightarrow> [UiWarningTimeout e])
           in case status of
                None \<Rightarrow> (Panicked, log)
              | Some status \<Rightarrow>
                  if HasFailedChecks status then
                    (Returned None, log @ [GhClosePR True, GitSwitchBranch (baseBranch st)])
                  else if \<not> IsMergeable status then
                    (Returned None, log @ [GitSwitchBranch (baseBranch st)])
                  else
                    (case mergePR env of
                       Some e \<Rightarrow>
                         (Returned (Some (FailedMergePR e)), log @ [GhMergePR (MergeStrategy cfg)])
                     | None \<Rightarrow>
                         (Returned None,
                          log @ [GhMergePR (MergeStrategy cfg),
                                 GitSwitchBranch (baseBranch st), GitPull (baseBranch st)]))))"

text \<open>Lines 256 to 286: commit, publish through the retry executor, open the pull request.\<close>

definition commitAndPublish ::
  "'c Config \<Rightarrow> 'c Orchestrator \<Rightarrow> IterEnv \<Rightarrow> outcome \<times> action list" where
  "commitAndPublish cfg st env =
     (case runCommit env of
        Some e \<Rightarrow> (Returned (Some (FailedCreateCommit e)), [ClaudeRunCommit])
      | None \<Rightarrow>
          (case PushWithRetry (gitPush env) 3 of
             (Some e, events) \<Rightarrow>
               (Returned (Some (FailedPush e)), [ClaudeRunCommit, GitPushWithRetry events])
           | (None, events) \<Rightarrow>
               (case createPR env of
                  Inl e \<Rightarrow>
                    (Returned (Some (FailedCreatePR e)),
                     [ClaudeRunCommit, GitPushWithRetry events, GhCreatePR (baseBranch st)])
                | Inr prURL \<Rightarrow>
                    (case reviewAndMerge cfg st env of
                       (res, acts) \<Rightarrow>
                         (res, [ClaudeRunCommit, GitPushWithRetry events,
                                GhCreatePR (baseBranch st)] @ acts)))))"

text \<open>
  \<^verbatim>\<open>runIteration\<close>.  The orchestrator is mutated in place in the source; the model returns
  it, also on the paths that return an error or panic.
\<close>

definition runIteration ::
  "('c::{zero,plus}) parser \<Rightarrow> 'c Config \<Rightarrow> 'c Orchestrator \<Rightarrow> IterEnv \<Rightarrow>
   outcome \<times> 'c Orchestrator \<times> action list" where
  "runIteration parseClaudeOutput cfg st env =
     (case createBranch env of
        Some e \<Rightarrow> (Returned (Some (FailedCreateBranch e)), st, [GitCreateBranch (branchName env)])
      | None \<Rightarrow>
          (case ClientRun parseClaudeOutput (claudeProc env) of
             (result, Some e) \<Rightarrow>
               (Returned (Some (ClaudeExecutionFailed e)), st,
                [GitCreateBranch (branchName env), ClaudeRun])
           | (result, None) \<Rightarrow>
               (let st = st\<lparr>totalCost := totalCost st + Cost result\<rparr>;
                    st = (if ContainsCompletionSignal (Output result) (CompletionSignal cfg)
                          then st\<lparr>completionSignalCount := completionSignalCount st + 1\<rparr>
                          else st\<lparr>completionSignalCount := 0\<rparr>);
                    acts = [GitCreateBranch (branchName env), ClaudeRun]
                in if DisableCommits cfg then (Returned None, st, acts)
                   else if DryRun cfg then
                     (Returned None, st,
                      acts @ [GitSwitchBranch (baseBranch st), GitDeleteBranch (branchName env)])
                   else
                     (case stageAll env of
                        Some e \<Rightarrow> (Returned (Some (FailedStageChanges e)), st, acts @ [GitStageAll])
                      | None \<Rightarrow>
                          (case hasChanges env of
                             Inl e \<Rightarrow>
                               (Returned (Some (FailedCheckChanges e)), st,
                                acts @ [GitStageAll, GitHasChanges])
                           | Inr changed \<Rightarrow>
                               if \<not> changed then
                                 (Returned None, st,
                                  acts @ [GitStageAll, GitHasChanges,
                                          GitSwitchBranch (baseBranch st),
                                          GitDeleteBranch (branchName env)])
                               else
                                 (case commitAndPublish cfg st env of
                                    (res, rest) \<Rightarrow>
                                      (res, st, acts @ [GitStageAll, GitHasChanges] @ rest)))))))"

text \<open>
  The \<^verbatim>\<open>for\<close> loop of \<^verbatim>\<open>Run\<close>, driven by a script: one entry for each pass through the loop
  body, holding the value of \<^verbatim>\<open>time.Since(o.startTime)\<close> at the stop check and the
  collaborators' answers during the iteration.  The run is observed until it stops, crashes
  or the script ends.
\<close>

datatype 'c run_result = Stopped "'c stop_reason" | Crashed | StillRunning

fun RunLoop ::
  "('c::{zero,ord,plus}) parser \<Rightarrow> 'c Config \<Rightarrow> 'c Orchestrator \<Rightarrow> (int \<times> IterEnv) list \<Rightarrow>
   'c run_result \<times> 'c Orchestrator \<times> action list" where
  "RunLoop parseClaudeOutput cfg st [] = (StillRunning, st, [])"
| "RunLoop parseClaudeOutput cfg st ((since, env) # script) =
     (let st = st\<lparr>iteration := iteration st + 1\<rparr>
      in case checkStopConditions cfg st since of
           (True, reason) \<Rightarrow> (Stopped reason, st, [UiStopping])
         | (False, reason) \<Rightarrow>
             (case runIteration parseClaudeOutput cfg st env of
                (Panicked, st, acts) \<Rightarrow> (Crashed, st, acts)
              | (Returned (Some err), st, acts) \<Rightarrow>
                  (case RunLoop parseClaudeOutput cfg st script of
                     (res, st', rest) \<Rightarrow>
                       (res, st', acts @ [UiIterationFailed (iteration st) err] @ rest))
              | (Returned None, st, acts) \<Rightarrow>
                  (case RunLoop parseClaudeOutput cfg st script of
                     (res, st', rest) \<Rightarrow> (res, st', acts @ rest))))"

section \<open>Notions of the specification\<close>

text \<open>
  The four stop conditions in the words of the specification: a ceiling of 0 is absent, an
  iteration ceiling is exceeded by an index above it, a cost or duration ceiling is reached
  by a value at or above it, and the completion threshold by a count at or above it.
\<close>

definition iterationCeilingExceeded :: "'c Config \<Rightarrow> 'c Orchestrator \<Rightarrow> bool" where
  "iterationCeilingExceeded cfg st = (0 < MaxRuns cfg \<and> MaxRuns cfg < iteration st)"

definition costCeilingReached :: "('c::{zero,ord}) Config \<Rightarrow> 'c Orchestrator \<Rightarrow> bool" where
  "costCeilingReached cfg st = (0 < MaxCost cfg \<and> MaxCost cfg \<le> totalCost st)"

definition durationCeilingReached :: "'c Config \<Rightarrow> int \<Rightarrow> bool" where
  "durationCeilingReached cfg since = (0 < MaxDuration cfg \<and> MaxDuration cfg \<le> since)"

definition completionThresholdReached :: "'c Config \<Rightarrow> 'c Orchestrator \<Rightarrow> bool" where
  "completionThresholdReached cfg st = (CompletionThreshold cfg \<le> completionSignalCount st)"

text \<open>
  The review lifecycle as the specification tells it.  \<open>snapshot env k\<close> is the answer of
  round \<open>k\<close>; a snapshot is terminal when its failed flag or its all-passed flag is set;
  \<open>testTime env start k\<close> is the clock reading of the \<open>k\<close>-th loop test when the rounds
  before it ended in the pause; \<open>lastSeen env n\<close> is the snapshot of the last of \<open>n\<close>
  rounds, and no snapshot when there was no round.
\<close>

definition snapshot :: "ReviewEnv \<Rightarrow> nat \<Rightarrow> string + PRStatus" where
  "snapshot env k = GetPRStatus (checksQ env k) (decisionQ env k)"

definition terminal :: "PRStatus \<Rightarrow> bool" where
  "terminal st = (HasFailedChecks st \<or> AllChecksPassed st)"

fun testTime :: "ReviewEnv \<Rightarrow> int \<Rightarrow> nat \<Rightarrow> int" where
  "testTime env start 0 = start + int (startLag env)"
| "testTime env start (Suc k) = testTime env start k + pollInterval + int (lag env k)"

definition lastSeen :: "ReviewEnv \<Rightarrow> nat \<Rightarrow> PRStatus option" where
  "lastSeen env n =
     (if n = 0 then None
      else (case snapshot env (n - 1) of Inl e \<Rightarrow> None | Inr st \<Rightarrow> Some st))"

text \<open>
  What the events of a run of the retry executor show: how often the operation was invoked,
  and the delays it paused for, in order.
\<close>

fun attempts :: "push_event list \<Rightarrow> nat" where
  "attempts [] = 0"
| "attempts (PushAttempt # es) = Suc (attempts es)"
| "attempts (Sleep d # es) = attempts es"

fun delays :: "push_event list \<Rightarrow> int list" where
  "delays [] = []"
| "delays (PushAttempt # es) = delays es"
| "delays (Sleep d # es) = d # delays es"

text \<open>
  The text the agent returned in a cycle, and whether it carries the completion phrase.  A
  cycle reaches the agent when its branch was created; \<open>outputs script\<close> are the cycles of
  a script that reach the agent, in order.
\<close>

definition agentOutput :: "('c::zero) parser \<Rightarrow> IterEnv \<Rightarrow> string" where
  "agentOutput parseClaudeOutput env = Output (fst (ClientRun parseClaudeOutput (claudeProc env)))"

definition signalled :: "('c::zero) parser \<Rightarrow> 'c Config \<Rightarrow> IterEnv \<Rightarrow> bool" where
  "signalled parseClaudeOutput cfg env =
     ContainsCompletionSignal (agentOutput parseClaudeOutput env) (CompletionSignal cfg)"

definition reachedAgent :: "IterEnv \<Rightarrow> bool" where
  "reachedAgent env = (createBranch env = None)"

definition outputs :: "(int \<times> IterEnv) list \<Rightarrow> IterEnv list" where
  "outputs script = filter reachedAgent (map snd script)"

section \<open>The limit policy\<close>

lemmas stop_defs = checkStopConditions_def HasMaxRuns_def HasMaxCost_def HasMaxDuration_def
  iterationCeilingExceeded_def costCeilingReached_def durationCeilingReached_def
  completionThresholdReached_def

text \<open>
  C1, as stated, fails: with an iteration ceiling of 5 and a cost ceiling of 1, a run at
  iteration 2 (so \<open>N \<le> M\<close>) whose accumulated cost is 1 is stopped, for the cost reason.
\<close>

theorem C1_counterexample:
  "0 < MaxRuns \<lparr>MaxRuns = 5, MaxCost = 1::real, MaxDuration = 0, MergeStrategy = ''squash'',
                DisableCommits = False, DryRun = False, CompletionSignal = ''DONE'',
                CompletionThreshold = 3\<rparr> \<and>
   iteration \<lparr>iteration = 2, totalCost = 1::real, completionSignalCount = 0,
              baseBranch = ''main''\<rparr>
     \<le> MaxRuns \<lparr>MaxRuns = 5, MaxCost = 1::real, MaxDuration = 0, MergeStrategy = ''squash'',
                  DisableCommits = False, DryRun = False, CompletionSignal = ''DONE'',
                  CompletionThreshold = 3\<rparr> \<and>
   checkStopConditions
     \<lparr>MaxRuns = 5, MaxCost = 1::real, MaxDuration = 0, MergeStrategy = ''squash'',
      DisableCommits = False, DryRun = False, CompletionSignal = ''DONE'',
      CompletionThreshold = 3\<rparr>
     \<lparr>iteration = 2, totalCost = 1, completionSignalCount = 0, baseBranch = ''main''\<rparr> 0
   = (True, ReachedMaxCost 1)"
  by (simp add: stop_defs)

text \<open>
  C1, amended.  The evaluator stops exactly when one of the four conditions holds, and the
  first one in the order iteration, cost, duration, completion signal supplies the reason;
  when none holds it continues with the empty reason.  With an iteration ceiling \<open>M > 0\<close>
  an index above \<open>M\<close> always stops the run, and an index up to \<open>M\<close> (the ceiling included)
  lets it continue provided no later condition holds.  A cost or duration ceiling above 0
  is boundary-inclusive: when no other condition holds, the run is stopped if and only if
  the tracked value is at or above the ceiling.
\<close>

theorem C1_checkStopConditions_priority:
  fixes cfg :: "('c::{zero,ord}) Config"
  shows
  "(fst (checkStopConditions cfg st since) \<longleftrightarrow>
      iterationCeilingExceeded cfg st \<or> costCeilingReached cfg st \<or>
      durationCeilingReached cfg since \<or> completionThresholdReached cfg st) \<and>
   snd (checkStopConditions cfg st since) =
     (if iterationCeilingExceeded cfg st then ReachedMaxIterations (MaxRuns cfg)
      else if costCeilingReached cfg st then ReachedMaxCost (MaxCost cfg)
      else if durationCeilingReached cfg since then ReachedMaxDuration (MaxDuration cfg)
      else if completionThresholdReached cfg st then CompletionSignalDetected
      else NoReason) \<and>
   (0 < MaxRuns cfg \<longrightarrow>
      (MaxRuns cfg < iteration st \<longrightarrow> fst (checkStopConditions cfg st since)) \<and>
      (iteration st \<le> MaxRuns cfg \<and> \<not> costCeilingReached cfg st \<and>
       \<not> durationCeilingReached cfg since \<and> \<not> completionThresholdReached cfg st \<longrightarrow>
         \<not> fst (checkStopConditions cfg st since))) \<and>
   (0 < MaxCost cfg \<and> \<not> iterationCeilingExceeded cfg st \<and>
    \<not> durationCeilingReached cfg since \<and> \<not> completionThresholdReached cfg st \<longrightarrow>
      (fst (checkStopConditions cfg st since) \<longleftrightarrow> MaxCost cfg \<le> totalCost st)) \<and>
   (0 < MaxDuration cfg \<and> \<not> iterationCeilingExceeded cfg st \<and>
    \<not> costCeilingReached cfg st \<and> \<not> completionThresholdReached cfg st \<longrightarrow>
      (fst (checkStopConditions cfg st since) \<longleftrightarrow> MaxDuration cfg \<le> since))"
  by (simp add: stop_defs)

text \<open>
  The amended C1 at concrete inputs: index 6 above a ceiling of 5 stops, index 5 at the
  ceiling continues, a cost of 10 at a ceiling of 10 stops, and a duration of 59 below a
  ceiling of 60 continues.
\<close>

theorem C1_checkStopConditions_priority_witness:
  "checkStopConditions
     \<lparr>MaxRuns = 5, MaxCost = 0::real, MaxDuration = 0, MergeStrategy = ''squash'',
      DisableCommits = False, DryRun = False, CompletionSignal = ''DONE'',
      CompletionThreshold = 3\<rparr>
     \<lparr>iteration = 6, totalCost = 0, completionSignalCount = 0, baseBranch = ''main''\<rparr> 0
     = (True, ReachedMaxIterations 5) \<and>
   checkStopConditions
     \<lparr>MaxRuns = 5, MaxCost = 0::real, MaxDuration = 0, MergeStrategy = ''squash'',
      DisableCommits = False, DryRun = False, CompletionSignal = ''DONE'',
      CompletionThreshold = 3\<rparr>
     \<lparr>iteration = 5, totalCost = 0, completionSignalCount = 0, baseBranch = ''main''\<rparr> 0
     = (False, NoReason) \<and>
   checkStopConditions
     \<lparr>MaxRuns = 0, MaxCost = 10::real, MaxDuration = 0, MergeStrategy = ''squash'',
      DisableCommits = False, DryRun = False, CompletionSignal = ''DONE'',
      CompletionThreshold = 3\<rparr>
     \<lparr>iteration = 1, totalCost = 10, completionSignalCount = 0, baseBranch = ''main''\<rparr> 0
     = (True, ReachedMaxCost 10) \<and>
   checkStopConditions
     \<lparr>MaxRuns = 0, MaxCost = 0::real, MaxDuration = 60, MergeStrategy = ''squash'',
      DisableCommits = False, DryRun = False, CompletionSignal = ''DONE'',
      CompletionThreshold = 3\<rparr>
     \<lparr>iteration = 1, totalCost = 0, completionSignalCount = 0, baseBranch = ''main''\<rparr> 59
     = (False, NoReason)"
  using
    C1_checkStopConditions_priority [of
      "\<lparr>MaxRuns = 5, MaxCost = 0::real, MaxDuration = 0, MergeStrategy = ''squash'',
        DisableCommits = False, DryRun = False, CompletionSignal = ''DONE'',
        CompletionThreshold = 3\<rparr>"
      "\<lparr>iteration = 6, totalCost = 0, completionSignalCount = 0, baseBranch = ''main''\<rparr>" 0]
    C1_checkStopConditions_priority [of
      "\<lparr>MaxRuns = 5, MaxCost = 0::real, MaxDuration = 0, MergeStrategy = ''squash'',
        DisableCommits = False, DryRun = False, CompletionSignal = ''DONE'',
        CompletionThreshold = 3\<rparr>"
      "\<lparr>iteration = 5, totalCost = 0, completionSignalCount = 0, baseBranch = ''main''\<rparr>" 0]
    C1_checkStopConditions_priority [of
      "\<lparr>MaxRuns = 0, MaxCost = 10::real, MaxDuration = 0, MergeStrategy = ''squash'',
        DisableCommits = False, DryRun = False, CompletionSignal = ''DONE'',
        CompletionThreshold = 3\<rparr>"
      "\<lparr>iteration = 1, totalCost = 10, completionSignalCount = 0, baseBranch = ''main''\<rparr>" 0]
    C1_checkStopConditions_priority [of
      "\<lparr>MaxRuns = 0, MaxCost = 0::real, MaxDuration = 60, MergeStrategy = ''squash'',
        DisableCommits = False, DryRun = False, CompletionSignal = ''DONE'',
        CompletionThreshold = 3\<rparr>"
      "\<lparr>iteration = 1, totalCost = 0, completionSignalCount = 0, baseBranch = ''main''\<rparr>" 59]
  by (simp add: iterationCeilingExceeded_def costCeilingReached_def
        durationCeilingReached_def completionThresholdReached_def prod_eq_iff)

section \<open>The review lifecycle tracker\<close>

lemma analyzeCheck_flags:
  "HasPendingChecks (analyzeCheck s c) =
     (HasPendingChecks s \<or> State c \<in> {''PENDING'', ''QUEUED'', ''IN_PROGRESS''})"
  "HasFailedChecks (analyzeCheck s c) =
     (HasFailedChecks s \<or>
      State c \<in> {''FAILURE'', ''ERROR'', ''CANCELLED'', ''TIMED_OUT'', ''ACTION_REQUIRED''})"
  "Checks (analyzeCheck s c) = Checks s"
  "ReviewDecision (analyzeCheck s c) = ReviewDecision s"
  "IsMergeable (analyzeCheck s c) = IsMergeable s"
  "AllChecksPassed (analyzeCheck s c) = AllChecksPassed s"
  by (auto simp: analyzeCheck_def passedStates_def pendingStates_def failedStates_def)

lemma foldl_analyzeCheck_flags:
  "HasPendingChecks (foldl analyzeCheck s cs) =
     (HasPendingChecks s \<or> (\<exists>c \<in> set cs. State c \<in> {''PENDING'', ''QUEUED'', ''IN_PROGRESS''}))"
  "HasFailedChecks (foldl analyzeCheck s cs) =
     (HasFailedChecks s \<or>
      (\<exists>c \<in> set cs.
         State c \<in> {''FAILURE'', ''ERROR'', ''CANCELLED'', ''TIMED_OUT'', ''ACTION_REQUIRED''}))"
  "Checks (foldl analyzeCheck s cs) = Checks s"
  "ReviewDecision (foldl analyzeCheck s cs) = ReviewDecision s"
  by (induction cs arbitrary: s; simp add: analyzeCheck_flags; blast)+

text \<open>The snapshot \<^verbatim>\<open>GetPRStatus\<close> builds when both queries succeed, field by field.\<close>

lemma GetPRStatus_Inr:
  "GetPRStatus (Inr cs) (Inr d) =
     Inr \<lparr>Checks = cs, ReviewDecision = d,
          IsMergeable =
            ((cs = [] \<or>
              (\<not> (\<exists>c \<in> set cs. State c \<in> {''PENDING'', ''QUEUED'', ''IN_PROGRESS''}) \<and>
               \<not> (\<exists>c \<in> set cs. State c \<in>
                     {''FAILURE'', ''ERROR'', ''CANCELLED'', ''TIMED_OUT'', ''ACTION_REQUIRED''}))) \<and>
             (d = '''' \<or> d = ''APPROVED'')),
          AllChecksPassed =
            (cs = [] \<or>
              (\<not> (\<exists>c \<in> set cs. State c \<in> {''PENDING'', ''QUEUED'', ''IN_PROGRESS''}) \<and>
               \<not> (\<exists>c \<in> set cs. State c \<in>
                     {''FAILURE'', ''ERROR'', ''CANCELLED'', ''TIMED_OUT'', ''ACTION_REQUIRED''}))),
          HasPendingChecks =
            (\<exists>c \<in> set cs. State c \<in> {''PENDING'', ''QUEUED'', ''IN_PROGRESS''}),
          HasFailedChecks =
            (\<exists>c \<in> set cs. State c \<in>
                     {''FAILURE'', ''ERROR'', ''CANCELLED'', ''TIMED_OUT'', ''ACTION_REQUIRED''})\<rparr>"
  unfolding GetPRStatus_def Let_def
  apply (simp only: sum.case)
  apply (rule arg_cong[where f=Inr])
  apply (rule PRStatus.equality)
  apply (simp_all add: foldl_analyzeCheck_flags)
  done

lemma GetPRStatus_Inl:
  "GetPRStatus (Inl e) q = Inl e"
  "GetPRStatus (Inr cs) (Inl e) = Inl e"
  by (simp_all add: GetPRStatus_def)

text \<open>
  C3.  One pass of the loop over the checks leaves the snapshot as it is for the raw states
  SUCCESS, NEUTRAL and SKIPPED, sets the pending flag for PENDING, QUEUED and IN_PROGRESS,
  sets the failed flag for FAILURE, ERROR, CANCELLED, TIMED_OUT and ACTION_REQUIRED, and
  leaves the snapshot as it is for every other raw state.  In the snapshot returned for a
  list of checks, the pending flag is set exactly when some check has one of the three
  pending states and the failed flag exactly when some check has one of the five failed
  states, so a check in an unlisted state sets neither.
\<close>

theorem C3_check_state_classification:
  "(State c \<in> {''SUCCESS'', ''NEUTRAL'', ''SKIPPED''} \<longrightarrow> analyzeCheck s c = s) \<and>
   (State c \<in> {''PENDING'', ''QUEUED'', ''IN_PROGRESS''} \<longrightarrow>
      analyzeCheck s c = s\<lparr>HasPendingChecks := True\<rparr>) \<and>
   (State c \<in> {''FAILURE'', ''ERROR'', ''CANCELLED'', ''TIMED_OUT'', ''ACTION_REQUIRED''} \<longrightarrow>
      analyzeCheck s c = s\<lparr>HasFailedChecks := True\<rparr>) \<and>
   (State c \<notin> {''SUCCESS'', ''NEUTRAL'', ''SKIPPED'', ''PENDING'', ''QUEUED'', ''IN_PROGRESS'',
                ''FAILURE'', ''ERROR'', ''CANCELLED'', ''TIMED_OUT'', ''ACTION_REQUIRED''} \<longrightarrow>
      analyzeCheck s c = s) \<and>
   (\<exists>st. GetPRStatus (Inr cs) (Inr d) = Inr st \<and>
      HasPendingChecks st =
        (\<exists>c \<in> set cs. State c \<in> {''PENDING'', ''QUEUED'', ''IN_PROGRESS''}) \<and>
      HasFailedChecks st =
        (\<exists>c \<in> set cs. State c \<in>
           {''FAILURE'', ''ERROR'', ''CANCELLED'', ''TIMED_OUT'', ''ACTION_REQUIRED''}))"
proof -
  have "analyzeCheck s c = s" if "State c \<in> {''SUCCESS'', ''NEUTRAL'', ''SKIPPED''}"
    using that unfolding analyzeCheck_def passedStates_def
    by (elim insertE emptyE; simp)
  moreover have "analyzeCheck s c = s\<lparr>HasPendingChecks := True\<rparr>"
    if "State c \<in> {''PENDING'', ''QUEUED'', ''IN_PROGRESS''}"
    using that unfolding analyzeCheck_def passedStates_def pendingStates_def
    by (elim insertE emptyE; simp)
  moreover have "analyzeCheck s c = s\<lparr>HasFailedChecks := True\<rparr>"
    if "State c \<in> {''FAILURE'', ''ERROR'', ''CANCELLED'', ''TIMED_OUT'', ''ACTION_REQUIRED''}"
    using that unfolding analyzeCheck_def passedStates_def pendingStates_def failedStates_def
    by (elim insertE emptyE; simp)
  moreover have "analyzeCheck s c = s"
    if "State c \<notin> {''SUCCESS'', ''NEUTRAL'', ''SKIPPED'', ''PENDING'', ''QUEUED'',
                     ''IN_PROGRESS'', ''FAILURE'', ''ERROR'', ''CANCELLED'', ''TIMED_OUT'',
                     ''ACTION_REQUIRED''}"
    using that
    by (simp add: analyzeCheck_def passedStates_def pendingStates_def failedStates_def)
  moreover have "\<exists>st. GetPRStatus (Inr cs) (Inr d) = Inr st \<and>
      HasPendingChecks st =
        (\<exists>c \<in> set cs. State c \<in> {''PENDING'', ''QUEUED'', ''IN_PROGRESS''}) \<and>
      HasFailedChecks st =
        (\<exists>c \<in> set cs. State c \<in>
           {''FAILURE'', ''ERROR'', ''CANCELLED'', ''TIMED_OUT'', ''ACTION_REQUIRED''})"
    by (simp add: GetPRStatus_Inr)
  ultimately show ?thesis by (intro conjI impI)
qed

text \<open>
  C3 at four checks, one of each class; STALE is a state outside the lists.  The snapshot
  of a single STALE check has neither flag set and counts as all passed.
\<close>

theorem C3_check_state_classification_witness:
  "analyzeCheck
     \<lparr>Checks = [], ReviewDecision = '''', IsMergeable = False, AllChecksPassed = False,
      HasPendingChecks = False, HasFailedChecks = False\<rparr>
     \<lparr>Name = ''build'', State = ''SKIPPED'', Bucket = ''skipping''\<rparr>
   = \<lparr>Checks = [], ReviewDecision = '''', IsMergeable = False, AllChecksPassed = False,
      HasPendingChecks = False, HasFailedChecks = False\<rparr> \<and>
   analyzeCheck
     \<lparr>Checks = [], ReviewDecision = '''', IsMergeable = False, AllChecksPassed = False,
      HasPendingChecks = False, HasFailedChecks = False\<rparr>
     \<lparr>Name = ''build'', State = ''QUEUED'', Bucket = ''pending''\<rparr>
   = \<lparr>Checks = [], ReviewDecision = '''', IsMergeable = False, AllChecksPassed = False,
      HasPendingChecks = True, HasFailedChecks = False\<rparr> \<and>
   analyzeCheck
     \<lparr>Checks = [], ReviewDecision = '''', IsMergeable = False, AllChecksPassed = False,
      HasPendingChecks = False, HasFailedChecks = False\<rparr>
     \<lparr>Name = ''build'', State = ''TIMED_OUT'', Bucket = ''fail''\<rparr>
   = \<lparr>Checks = [], ReviewDecision = '''', IsMergeable = False, AllChecksPassed = False,
      HasPendingChecks = False, HasFailedChecks = True\<rparr> \<and>
   analyzeCheck
     \<lparr>Checks = [], ReviewDecision = '''', IsMergeable = False, AllChecksPassed = False,
      HasPendingChecks = False, HasFailedChecks = False\<rparr>
     \<lparr>Name = ''build'', State = ''STALE'', Bucket = ''''\<rparr>
   = \<lparr>Checks = [], ReviewDecision = '''', IsMergeable = False, AllChecksPassed = False,
      HasPendingChecks = False, HasFailedChecks = False\<rparr> \<and>
   GetPRStatus (Inr [\<lparr>Name = ''build'', State = ''STALE'', Bucket = ''''\<rparr>]) (Inr '''')
   = Inr \<lparr>Checks = [\<lparr>Name = ''build'', State = ''STALE'', Bucket = ''''\<rparr>],
          ReviewDecision = '''', IsMergeable = True, AllChecksPassed = True,
          HasPendingChecks = False, HasFailedChecks = False\<rparr>"
  using
    C3_check_state_classification [of
      "\<lparr>Name = ''build'', State = ''SKIPPED'', Bucket = ''skipping''\<rparr>"
      "\<lparr>Checks = [], ReviewDecision = '''', IsMergeable = False, AllChecksPassed = False,
        HasPendingChecks = False, HasFailedChecks = False\<rparr>" "[]" "''''"]
    C3_check_state_classification [of
      "\<lparr>Name = ''build'', State = ''QUEUED'', Bucket = ''pending''\<rparr>"
      "\<lparr>Checks = [], ReviewDecision = '''', IsMergeable = False, AllChecksPassed = False,
        HasPendingChecks = False, HasFailedChecks = False\<rparr>" "[]" "''''"]
    C3_check_state_classification [of
      "\<lparr>Name = ''build'', State = ''TIMED_OUT'', Bucket = ''fail''\<rparr>"
      "\<lparr>Checks = [], ReviewDecision = '''', IsMergeable = False, AllChecksPassed = False,
        HasPendingChecks = False, HasFailedChecks = False\<rparr>" "[]" "''''"]
    C3_check_state_classification [of
      "\<lparr>Name = ''build'', State = ''STALE'', Bucket = ''''\<rparr>"
      "\<lparr>Checks = [], ReviewDecision = '''', IsMergeable = False, AllChecksPassed = False,
        HasPendingChecks = False, HasFailedChecks = False\<rparr>"
      "[\<lparr>Name = ''build'', State = ''STALE'', Bucket = ''''\<rparr>]" "''''"]
  by (simp add: GetPRStatus_Inr)

text \<open>
  C4.  In every snapshot, \<^verbatim>\<open>AllChecksPassed\<close> is (no checks) or (no pending and no
  failed), so it is true for an empty list of checks; \<^verbatim>\<open>HasFailedChecks\<close> is true as soon as
  one check has a failed state, whatever the others are; \<^verbatim>\<open>IsMergeable\<close> is
  \<^verbatim>\<open>AllChecksPassed\<close> and a review decision that is empty or APPROVED, so it is false for
  CHANGES_REQUESTED.
\<close>

theorem C4_derived_flags:
  "\<exists>st. GetPRStatus (Inr cs) (Inr d) = Inr st \<and>
     AllChecksPassed st = (cs = [] \<or> (\<not> HasPendingChecks st \<and> \<not> HasFailedChecks st)) \<and>
     (cs = [] \<longrightarrow> AllChecksPassed st) \<and>
     ((\<exists>c \<in> set cs. State c \<in>
         {''FAILURE'', ''ERROR'', ''CANCELLED'', ''TIMED_OUT'', ''ACTION_REQUIRED''}) \<longrightarrow>
        HasFailedChecks st) \<and>
     IsMergeable st = (AllChecksPassed st \<and> (d = '''' \<or> d = ''APPROVED'')) \<and>
     (d = ''CHANGES_REQUESTED'' \<longrightarrow> \<not> IsMergeable st)"
  by (simp add: GetPRStatus_Inr)

text \<open>
  C4 at three snapshots: no checks and no decision; a failed check among passed and
  pending ones; all checks passed but changes requested.
\<close>

theorem C4_derived_flags_witness:
  "GetPRStatus (Inr []) (Inr '''')
   = Inr \<lparr>Checks = [], ReviewDecision = '''', IsMergeable = True, AllChecksPassed = True,
          HasPendingChecks = False, HasFailedChecks = False\<rparr> \<and>
   GetPRStatus
     (Inr [\<lparr>Name = ''lint'', State = ''SUCCESS'', Bucket = ''pass''\<rparr>,
           \<lparr>Name = ''test'', State = ''FAILURE'', Bucket = ''fail''\<rparr>,
           \<lparr>Name = ''e2e'', State = ''PENDING'', Bucket = ''pending''\<rparr>]) (Inr ''APPROVED'')
   = Inr \<lparr>Checks = [\<lparr>Name = ''lint'', State = ''SUCCESS'', Bucket = ''pass''\<rparr>,
                    \<lparr>Name = ''test'', State = ''FAILURE'', Bucket = ''fail''\<rparr>,
                    \<lparr>Name = ''e2e'', State = ''PENDING'', Bucket = ''pending''\<rparr>],
          ReviewDecision = ''APPROVED'', IsMergeable = False, AllChecksPassed = False,
          HasPendingChecks = True, HasFailedChecks = True\<rparr> \<and>
   GetPRStatus
     (Inr [\<lparr>Name = ''lint'', State = ''SUCCESS'', Bucket = ''pass''\<rparr>])
     (Inr ''CHANGES_REQUESTED'')
   = Inr \<lparr>Checks = [\<lparr>Name = ''lint'', State = ''SUCCESS'', Bucket = ''pass''\<rparr>],
          ReviewDecision = ''CHANGES_REQUESTED'', IsMergeable = False, AllChecksPassed = True,
          HasPendingChecks = False, HasFailedChecks = False\<rparr>"
  using
    C4_derived_flags [of "[]" "''''"]
    C4_derived_flags [of
      "[\<lparr>Name = ''lint'', State = ''SUCCESS'', Bucket = ''pass''\<rparr>,
        \<lparr>Name = ''test'', State = ''FAILURE'', Bucket = ''fail''\<rparr>,
        \<lparr>Name = ''e2e'', State = ''PENDING'', Bucket = ''pending''\<rparr>]" "''APPROVED''"]
    C4_derived_flags [of
      "[\<lparr>Name = ''lint'', State = ''SUCCESS'', Bucket = ''pass''\<rparr>]" "''CHANGES_REQUESTED''"]
  by (simp add: GetPRStatus_Inr)

lemma GetPRStatus_not_both:
  assumes "GetPRStatus cq dq = Inr st"
  shows "\<not> (HasFailedChecks st \<and> AllChecksPassed st)"
proof (cases cq)
  case (Inl e)
  with assms show ?thesis by (simp add: GetPRStatus_Inl)
next
  case cs: (Inr cs)
  show ?thesis
  proof (cases dq)
    case (Inl e)
    with assms cs show ?thesis by (simp add: GetPRStatus_Inl)
  next
    case (Inr d)
    with assms cs have "st = projr (GetPRStatus (Inr cs) (Inr d))" by simp
    then show ?thesis by (auto simp: GetPRStatus_Inr)
  qed
qed

text \<open>One round that is neither failed nor passed: the loop pauses and tests again.\<close>

lemma WaitLoop_round:
  assumes "now < deadline" "snapshot env k = Inr st" "\<not> terminal st"
  shows "\<exists>ns'. WaitLoop env timeout deadline now k prev ns =
           WaitLoop env timeout deadline (now + pollInterval + int (lag env k)) (Suc k)
             (Some st) ns'"
  using assms by (subst WaitLoop.simps) (auto simp: snapshot_def terminal_def)

lemma WaitLoop_rounds:
  assumes "\<forall>j<n. testTime env start (k + j) < deadline \<and>
                  (\<exists>s. snapshot env (k + j) = Inr s \<and> \<not> terminal s)"
  shows "\<exists>ns'. WaitLoop env timeout deadline (testTime env start k) k prev ns =
           WaitLoop env timeout deadline (testTime env start (k + n)) (k + n)
             (if n = 0 then prev else lastSeen env (k + n)) ns'"
  using assms
proof (induction n arbitrary: k prev ns)
  case 0
  then show ?case by auto
next
  case (Suc n)
  from Suc.prems have now: "testTime env start k < deadline"
    and "\<exists>s. snapshot env k = Inr s \<and> \<not> terminal s"
    by (metis add.right_neutral zero_less_Suc)+
  then obtain s where s: "snapshot env k = Inr s" "\<not> terminal s" by blast
  from WaitLoop_round [OF now s, of timeout prev ns]
  obtain ns1 where step:
    "WaitLoop env timeout deadline (testTime env start k) k prev ns =
     WaitLoop env timeout deadline (testTime env start (Suc k)) (Suc k) (Some s) ns1"
    by auto
  have "\<forall>j<n. testTime env start (Suc k + j) < deadline \<and>
               (\<exists>s. snapshot env (Suc k + j) = Inr s \<and> \<not> terminal s)"
    using Suc.prems by (metis Suc_less_eq add_Suc_shift)
  from Suc.IH [OF this, of "Some s" ns1]
  obtain ns2 where rest:
    "WaitLoop env timeout deadline (testTime env start (Suc k)) (Suc k) (Some s) ns1 =
     WaitLoop env timeout deadline (testTime env start (Suc k + n)) (Suc k + n)
       (if n = 0 then Some s else lastSeen env (Suc k + n)) ns2"
    by blast
  have "(if n = 0 then Some s else lastSeen env (Suc k + n)) = lastSeen env (k + Suc n)"
    using s by (simp add: lastSeen_def)
  with step rest show ?case by (auto simp del: testTime.simps)
qed

lemma WaitLoop_terminal:
  assumes "now < deadline" "snapshot env k = Inr st" "terminal st"
  shows "fst (WaitLoop env timeout deadline now k prev ns) = Some st"
    and "fst (snd (WaitLoop env timeout deadline now k prev ns)) = None"
  using assms by (subst WaitLoop.simps; auto simp: snapshot_def terminal_def)+

lemma WaitLoop_deadline:
  assumes "deadline \<le> now"
  shows "WaitLoop env timeout deadline now k prev ns = (prev, Some (TimeoutWaiting timeout), ns)"
  using assms by (subst WaitLoop.simps) simp

text \<open>What the loop can return, whatever the review system answers.\<close>

lemma WaitLoop_result:
  assumes "\<forall>st. prev = Some st \<longrightarrow> \<not> terminal st"
  shows "(fst (snd (WaitLoop env timeout deadline now k prev ns)) = None \<longrightarrow>
            (\<exists>st. fst (WaitLoop env timeout deadline now k prev ns) = Some st \<and> terminal st)) \<and>
         (\<forall>t. fst (snd (WaitLoop env timeout deadline now k prev ns)) = Some (TimeoutWaiting t) \<longrightarrow>
            t = timeout \<and>
            (\<forall>st. fst (WaitLoop env timeout deadline now k prev ns) = Some st \<longrightarrow> \<not> terminal st)) \<and>
         (\<forall>e. fst (snd (WaitLoop env timeout deadline now k prev ns)) = Some (PollFailed e) \<longrightarrow>
            fst (WaitLoop env timeout deadline now k prev ns) = None)"
  using assms
proof (induction env timeout deadline now k prev ns rule: WaitLoop.induct)
  case (1 env timeout deadline now k lastStatus notified)
  show ?case
  proof (cases "now < deadline")
    case False
    then show ?thesis using "1.prems" by (subst (1 2 3 4 5 6) WaitLoop.simps) simp
  next
    case True
    show ?thesis
    proof (cases "GetPRStatus (checksQ env k) (decisionQ env k)")
      case (Inl e)
      with True show ?thesis by (subst (1 2 3 4 5 6) WaitLoop.simps) simp
    next
      case (Inr status)
      show ?thesis
      proof (cases "terminal status")
        case t: True
        with True Inr show ?thesis
          by (subst (1 2 3 4 5 6) WaitLoop.simps) (auto simp: terminal_def)
      next
        case f: False
        then have nf: "\<not> HasFailedChecks status" "\<not> AllChecksPassed status"
          by (auto simp: terminal_def)
        have "\<forall>st. Some status = Some st \<longrightarrow> \<not> terminal st" using f by simp
        from "1.IH" [OF True Inr nf this] True Inr nf show ?thesis
          by (subst (1 2 3 4 5 6) WaitLoop.simps) simp
      qed
    qed
  qed
qed

text \<open>
  C6.  No snapshot has both its failed flag and its all-passed flag set.  When the rounds
  before round \<open>n\<close> were tested before the deadline and were not terminal, and round \<open>n\<close> is
  tested before the deadline and its snapshot is terminal, \<^verbatim>\<open>WaitForChecks\<close> returns this
  snapshot and no error; when instead the deadline has passed at the test of round \<open>n\<close>,
  it returns the snapshot of the last round (none if there was no round) and the timeout
  error.  Whatever the review system answers: a result without error carries a terminal
  snapshot, and a result with the timeout error carries no terminal snapshot.
\<close>

theorem C6_WaitForChecks_terminal_or_timeout:
  "(GetPRStatus cq dq = Inr st0 \<longrightarrow> \<not> (HasFailedChecks st0 \<and> AllChecksPassed st0)) \<and>
   ((\<forall>j<n. testTime env start j < start + timeout \<and>
            (\<exists>s. snapshot env j = Inr s \<and> \<not> terminal s)) \<and>
    testTime env start n < start + timeout \<and> snapshot env n = Inr st \<and> terminal st \<longrightarrow>
      fst (WaitForChecks env start timeout) = Some st \<and>
      fst (snd (WaitForChecks env start timeout)) = None) \<and>
   ((\<forall>j<n. testTime env start j < start + timeout \<and>
            (\<exists>s. snapshot env j = Inr s \<and> \<not> terminal s)) \<and>
    start + timeout \<le> testTime env start n \<longrightarrow>
      fst (WaitForChecks env start timeout) = lastSeen env n \<and>
      fst (snd (WaitForChecks env start timeout)) = Some (TimeoutWaiting timeout)) \<and>
   (fst (snd (WaitForChecks env start timeout)) = None \<longrightarrow>
      (\<exists>s. fst (WaitForChecks env start timeout) = Some s \<and> terminal s)) \<and>
   (\<forall>t. fst (snd (WaitForChecks env start timeout)) = Some (TimeoutWaiting t) \<longrightarrow>
      t = timeout \<and>
      (\<forall>s. fst (WaitForChecks env start timeout) = Some s \<longrightarrow> \<not> terminal s))"
proof -
  let ?d = "start + timeout"
  have start: "WaitForChecks env start timeout =
               WaitLoop env timeout ?d (testTime env start 0) 0 None []"
    by (simp add: WaitForChecks_def)
  have rounds: "\<exists>ns'. WaitForChecks env start timeout =
                  WaitLoop env timeout ?d (testTime env start n) n
                    (if n = 0 then None else lastSeen env n) ns'"
    if "\<forall>j<n. testTime env start j < ?d \<and> (\<exists>s. snapshot env j = Inr s \<and> \<not> terminal s)"
    using WaitLoop_rounds [of n env start 0 ?d timeout None "[]"] that
    unfolding start by (cases "n = 0") auto
  have a: "GetPRStatus cq dq = Inr st0 \<longrightarrow> \<not> (HasFailedChecks st0 \<and> AllChecksPassed st0)"
    using GetPRStatus_not_both by blast
  have b: "fst (WaitForChecks env start timeout) = Some st \<and>
           fst (snd (WaitForChecks env start timeout)) = None"
    if h: "\<forall>j<n. testTime env start j < ?d \<and> (\<exists>s. snapshot env j = Inr s \<and> \<not> terminal s)"
      and t: "testTime env start n < ?d" "snapshot env n = Inr st" "terminal st"
  proof -
    from rounds [OF h] obtain ns' where
      "WaitForChecks env start timeout =
       WaitLoop env timeout ?d (testTime env start n) n
         (if n = 0 then None else lastSeen env n) ns'" ..
    then show ?thesis using WaitLoop_terminal [OF t] by simp
  qed
  have c: "fst (WaitForChecks env start timeout) = lastSeen env n \<and>
           fst (snd (WaitForChecks env start timeout)) = Some (TimeoutWaiting timeout)"
    if h: "\<forall>j<n. testTime env start j < ?d \<and> (\<exists>s. snapshot env j = Inr s \<and> \<not> terminal s)"
      and t: "?d \<le> testTime env start n"
  proof -
    from rounds [OF h] obtain ns' where
      "WaitForChecks env start timeout =
       WaitLoop env timeout ?d (testTime env start n) n
         (if n = 0 then None else lastSeen env n) ns'" ..
    then show ?thesis using WaitLoop_deadline [OF t] by (simp add: lastSeen_def)
  qed
  have d: "(fst (snd (WaitForChecks env start timeout)) = None \<longrightarrow>
              (\<exists>s. fst (WaitForChecks env start timeout) = Some s \<and> terminal s)) \<and>
           (\<forall>t. fst (snd (WaitForChecks env start timeout)) = Some (TimeoutWaiting t) \<longrightarrow>
              t = timeout \<and>
              (\<forall>s. fst (WaitForChecks env start timeout) = Some s \<longrightarrow> \<not> terminal s))"
    using WaitLoop_result [of None env timeout ?d "testTime env start 0" 0 "[]"]
    unfolding start by simp
  from a b c d show ?thesis by blast
qed

text \<open>
  C6 at two runs.  In the first, the only check is pending in round 0 and has failed in
  round 1, ten seconds later and long before the deadline of thirty minutes: the failed
  snapshot is returned without error.  In the second, the check stays pending and the
  timeout is fifteen seconds: the test of round 2 comes after twenty seconds, and the
  pending snapshot of round 1 is returned with the timeout error.
\<close>

theorem C6_WaitForChecks_terminal_or_timeout_witness:
  "fst (WaitForChecks
          \<lparr>checksQ = (\<lambda>k. if k = 0
                           then Inr [\<lparr>Name = ''ci'', State = ''PENDING'', Bucket = ''pending''\<rparr>]
                           else Inr [\<lparr>Name = ''ci'', State = ''FAILURE'', Bucket = ''fail''\<rparr>]),
           decisionQ = (\<lambda>k. Inr ''''), startLag = 0, lag = (\<lambda>k. 0)\<rparr>
          0 (30 * 60 * second))
   = Some \<lparr>Checks = [\<lparr>Name = ''ci'', State = ''FAILURE'', Bucket = ''fail''\<rparr>],
           ReviewDecision = '''', IsMergeable = False, AllChecksPassed = False,
           HasPendingChecks = False, HasFailedChecks = True\<rparr> \<and>
   fst (snd (WaitForChecks
          \<lparr>checksQ = (\<lambda>k. if k = 0
                           then Inr [\<lparr>Name = ''ci'', State = ''PENDING'', Bucket = ''pending''\<rparr>]
                           else Inr [\<lparr>Name = ''ci'', State = ''FAILURE'', Bucket = ''fail''\<rparr>]),
           decisionQ = (\<lambda>k. Inr ''''), startLag = 0, lag = (\<lambda>k. 0)\<rparr>
          0 (30 * 60 * second)))
   = None \<and>
   fst (WaitForChecks
          \<lparr>checksQ = (\<lambda>k. Inr [\<lparr>Name = ''ci'', State = ''PENDING'', Bucket = ''pending''\<rparr>]),
           decisionQ = (\<lambda>k. Inr ''''), startLag = 0, lag = (\<lambda>k. 0)\<rparr>
          0 (15 * second))
   = Some \<lparr>Checks = [\<lparr>Name = ''ci'', State = ''PENDING'', Bucket = ''pending''\<rparr>],
           ReviewDecision = '''', IsMergeable = False, AllChecksPassed = False,
           HasPendingChecks = True, HasFailedChecks = False\<rparr> \<and>
   fst (snd (WaitForChecks
          \<lparr>checksQ = (\<lambda>k. Inr [\<lparr>Name = ''ci'', State = ''PENDING'', Bucket = ''pending''\<rparr>]),
           decisionQ = (\<lambda>k. Inr ''''), startLag = 0, lag = (\<lambda>k. 0)\<rparr>
          0 (15 * second)))
   = Some (TimeoutWaiting (15 * second))"
  using
    C6_WaitForChecks_terminal_or_timeout [where n = "Suc 0" and start = 0
      and timeout = "30 * 60 * second"
      and env = "\<lparr>checksQ = (\<lambda>k. if k = 0
                           then Inr [\<lparr>Name = ''ci'', State = ''PENDING'', Bucket = ''pending''\<rparr>]
                           else Inr [\<lparr>Name = ''ci'', State = ''FAILURE'', Bucket = ''fail''\<rparr>]),
           decisionQ = (\<lambda>k. Inr ''''), startLag = 0, lag = (\<lambda>k. 0)\<rparr>"
      and st = "\<lparr>Checks = [\<lparr>Name = ''ci'', State = ''FAILURE'', Bucket = ''fail''\<rparr>],
           ReviewDecision = '''', IsMergeable = False, AllChecksPassed = False,
           HasPendingChecks = False, HasFailedChecks = True\<rparr>"]
    C6_WaitForChecks_terminal_or_timeout [where n = "Suc (Suc 0)" and start = 0
      and timeout = "15 * second"
      and env = "\<lparr>checksQ = (\<lambda>k. Inr [\<lparr>Name = ''ci'', State = ''PENDING'', Bucket = ''pending''\<rparr>]),
           decisionQ = (\<lambda>k. Inr ''''), startLag = 0, lag = (\<lambda>k. 0)\<rparr>"]
  by (simp add: snapshot_def terminal_def lastSeen_def GetPRStatus_Inr pollInterval_def
        second_def All_less_Suc)

section \<open>The retry executor\<close>




lemma attempts_append [simp]: "attempts (xs @ ys) = attempts xs + attempts ys"
  by (induction xs rule: attempts.induct) auto

lemma delays_append [simp]: "delays (xs @ ys) = delays xs @ delays ys"
  by (induction xs rule: delays.induct) auto














section \<open>The iteration driver\<close>

lemma ClientRun_no_error: "snd (ClientRun parse proc) = None"
  by (simp add: ClientRun_def Let_def)

lemma ClientRun_pair: "ClientRun parse proc = (fst (ClientRun parse proc), None)"
  using ClientRun_no_error [of parse proc] by (simp add: prod_eq_iff)

lemma ClientRun_failure:
  assumes "exitErr proc \<noteq> None"
  shows "IsError (fst (ClientRun parse proc))"
    and "stderr proc \<noteq> '''' \<Longrightarrow> Output (fst (ClientRun parse proc)) = stderr proc"
  using assms by (simp_all add: ClientRun_def Let_def)

lemma reviewAndMerge_outcome:
  "fst (reviewAndMerge cfg st env) = Panicked \<or>
   fst (reviewAndMerge cfg st env) = Returned None \<or>
   (\<exists>e. fst (reviewAndMerge cfg st env) = Returned (Some (FailedMergePR e)))"
  by (simp add: reviewAndMerge_def Let_def split: prod.splits option.splits)

lemma commitAndPublish_outcome:
  "fst (commitAndPublish cfg st env) \<noteq> Returned (Some (ClaudeExecutionFailed e))"
  using reviewAndMerge_outcome [of cfg st env]
  by (auto simp: commitAndPublish_def split: prod.splits option.splits sum.splits)

text \<open>The orchestrator after one call of \<^verbatim>\<open>runIteration\<close>.\<close>

lemma runIteration_state:
  "fst (snd (runIteration parse cfg st env)) =
     (if createBranch env = None
      then st\<lparr>totalCost := totalCost st + Cost (fst (ClientRun parse (claudeProc env))),
              completionSignalCount :=
                (if signalled parse cfg env then completionSignalCount st + 1 else 0)\<rparr>
      else st)"
proof -
  obtain r where r: "ClientRun parse (claudeProc env) = (r, None)"
    using ClientRun_pair by blast
  then show ?thesis
    by (simp add: runIteration_def Let_def signalled_def agentOutput_def
          split: prod.splits option.splits sum.splits)
qed

lemma commitAndPublish_outcome_pair:
  "commitAndPublish cfg st env \<noteq> (Returned (Some (ClaudeExecutionFailed e)), acts)"
  using commitAndPublish_outcome [of cfg st env e] by auto

lemma runIteration_outcome:
  "fst (runIteration parse cfg st env) \<noteq> Returned (Some (ClaudeExecutionFailed e))"
proof -
  obtain r where r: "ClientRun parse (claudeProc env) = (r, None)"
    using ClientRun_pair by blast
  then show ?thesis
    by (auto simp: runIteration_def Let_def commitAndPublish_outcome_pair
          split: prod.splits option.splits sum.splits)
qed

text \<open>
  C9.  \<^verbatim>\<open>Client.Run\<close> returns a nil error for every prompt and every outcome of the agent
  process.  When the process fails, the result has \<^verbatim>\<open>IsError\<close> set, and the text of stderr
  as its output when stderr is not empty.  So \<^verbatim>\<open>runIteration\<close> never returns its
  ``Claude execution failed'' error, and every iteration whose branch was created adds the
  cost of the result to the accumulated cost.
\<close>

theorem C9_ClientRun_returns_nil_error:
  "snd (ClientRun parse proc) = None \<and>
   (exitErr proc \<noteq> None \<longrightarrow>
      IsError (fst (ClientRun parse proc)) \<and>
      (stderr proc \<noteq> '''' \<longrightarrow> Output (fst (ClientRun parse proc)) = stderr proc)) \<and>
   fst (runIteration parse cfg st env) \<noteq> Returned (Some (ClaudeExecutionFailed e)) \<and>
   (createBranch env = None \<longrightarrow>
      totalCost (fst (snd (runIteration parse cfg st env))) =
        totalCost st + Cost (fst (ClientRun parse (claudeProc env))))"
  using ClientRun_no_error [of parse proc] ClientRun_failure [of proc parse]
    runIteration_outcome [of parse cfg st env e]
  by (simp add: runIteration_state)

text \<open>
  C9 at an agent process that exits with status 1 after printing a result that costs 2:
  the error is nil, the result is flagged and carries the text of stderr, and a dry-run
  iteration that started at an accumulated cost of 3 ends at 5.
\<close>

theorem C9_ClientRun_returns_nil_error_witness:
  "ClientRun (\<lambda>raw. Inr (''partial'', 2::real, False))
     \<lparr>exitErr = Some ''exit status 1'', stdout = ''{}'', stderr = ''rate limited''\<rparr>
   = (\<lparr>Output = ''rate limited'', Cost = 2, IsError = True, RawOutput = ''{}''\<rparr>, None) \<and>
   runIteration (\<lambda>raw. Inr (''partial'', 2::real, False))
     \<lparr>MaxRuns = 5, MaxCost = 0, MaxDuration = 0, MergeStrategy = ''squash'',
      DisableCommits = False, DryRun = True, CompletionSignal = ''DONE'',
      CompletionThreshold = 3\<rparr>
     \<lparr>iteration = 1, totalCost = 3, completionSignalCount = 0, baseBranch = ''main''\<rparr>
     \<lparr>branchName = ''cc/iteration-1'', createBranch = None,
      claudeProc = \<lparr>exitErr = Some ''exit status 1'', stdout = ''{}'',
                    stderr = ''rate limited''\<rparr>,
      stageAll = None, hasChanges = Inr False, runCommit = None, gitPush = (\<lambda>k. None),
      createPR = Inr ''https://github.com/o/r/pull/7'', waitStart = 0,
      review = \<lparr>checksQ = (\<lambda>k. Inr []), decisionQ = (\<lambda>k. Inr ''''), startLag = 0,
                lag = (\<lambda>k. 0)\<rparr>,
      mergePR = None\<rparr>
   = (Returned None,
      \<lparr>iteration = 1, totalCost = 5, completionSignalCount = 0, baseBranch = ''main''\<rparr>,
      [GitCreateBranch ''cc/iteration-1'', ClaudeRun, GitSwitchBranch ''main'',
       GitDeleteBranch ''cc/iteration-1''])"
proof -
  have sig: "\<not> ContainsCompletionSignal ''rate limited'' ''DONE''"
    by (simp add: ContainsCompletionSignal_def strings_Contains_def sublist_Cons_right)
  show ?thesis
    using
      C9_ClientRun_returns_nil_error [of
        "\<lambda>raw. Inr (''partial'', 2::real, False)"
        "\<lparr>exitErr = Some ''exit status 1'', stdout = ''{}'', stderr = ''rate limited''\<rparr>"
        "\<lparr>MaxRuns = 5, MaxCost = 0, MaxDuration = 0, MergeStrategy = ''squash'',
          DisableCommits = False, DryRun = True, CompletionSignal = ''DONE'',
          CompletionThreshold = 3\<rparr>"
        "\<lparr>iteration = 1, totalCost = 3, completionSignalCount = 0, baseBranch = ''main''\<rparr>"
        "\<lparr>branchName = ''cc/iteration-1'', createBranch = None,
          claudeProc = \<lparr>exitErr = Some ''exit status 1'', stdout = ''{}'',
                        stderr = ''rate limited''\<rparr>,
          stageAll = None, hasChanges = Inr False, runCommit = None, gitPush = (\<lambda>k. None),
          createPR = Inr ''https://github.com/o/r/pull/7'', waitStart = 0,
          review = \<lparr>checksQ = (\<lambda>k. Inr []), decisionQ = (\<lambda>k. Inr ''''), startLag = 0,
                    lag = (\<lambda>k. 0)\<rparr>,
          mergePR = None\<rparr>"]
      sig
    by (simp add: runIteration_def ClientRun_def Let_def)
qed

lemma ContainsCompletionSignal_iff:
  "ContainsCompletionSignal out sig \<longleftrightarrow> sig \<noteq> '''' \<and> (\<exists>pre post. out = pre @ sig @ post)"
  by (simp add: ContainsCompletionSignal_def strings_Contains_def sublist_def)

lemma consecutive_count:
  "foldl (\<lambda>c x. if P x then c + 1 else 0) c0 xs =
     (if \<forall>x \<in> set xs. P x then c0 + int (length xs)
      else int (length (takeWhile P (rev xs))))"
proof (induction xs rule: rev_induct)
  case Nil
  show ?case by simp
next
  case (snoc x xs)
  show ?case
  proof (cases "P x")
    case True
    then show ?thesis using snoc by auto
  next
    case False
    then show ?thesis by simp
  qed
qed

lemma consecutive_count_zero:
  "foldl (\<lambda>c x. if P x then c + 1 else 0) 0 xs = int (length (takeWhile P (rev xs)))"
proof (cases "\<forall>x \<in> set xs. P x")
  case True
  then have "takeWhile P (rev xs) = rev xs"
    by (intro takeWhile_eq_all_conv [THEN iffD2]) simp
  then have "length (takeWhile P (rev xs)) = length xs"
    by (simp only: length_rev)
  then show ?thesis using True by (simp add: consecutive_count)
next
  case False
  then show ?thesis by (auto simp: consecutive_count)
qed

lemma takeWhile_take:
  assumes "n \<le> length (takeWhile P xs)"
  shows "\<forall>x \<in> set (take n xs). P x"
proof -
  have "take n xs = take n (takeWhile P xs)"
    using assms
    by (metis append_eq_conv_conj min.absorb2 take_take takeWhile_dropWhile_id length_take)
  then show ?thesis by (metis in_set_takeD set_takeWhileD)
qed

text \<open>The counter after the cycles of a script that the loop went through to its end.\<close>

lemma RunLoop_count:
  assumes "RunLoop parse cfg st script = (StillRunning, st', acts)"
  shows "completionSignalCount st' =
           foldl (\<lambda>c env. if signalled parse cfg env then c + 1 else 0)
             (completionSignalCount st) (outputs script)"
  using assms
proof (induction script arbitrary: st st' acts)
  case Nil
  then show ?case by (simp add: outputs_def)
next
  case (Cons x script)
  obtain since env where x: "x = (since, env)" by (cases x)
  let ?st1 = "st\<lparr>iteration := iteration st + 1\<rparr>"
  obtain res st2 acts2 where it: "runIteration parse cfg ?st1 env = (res, st2, acts2)"
    by (cases "runIteration parse cfg ?st1 env")
  have st2: "completionSignalCount st2 =
               (if reachedAgent env
                then (if signalled parse cfg env then completionSignalCount st + 1 else 0)
                else completionSignalCount st)"
    using runIteration_state [of parse cfg ?st1 env] it by (simp add: reachedAgent_def)
  from Cons.prems(1) x it
  obtain acts3 where rest: "RunLoop parse cfg st2 script = (StillRunning, st', acts3)"
    by (auto simp: Let_def split: prod.splits bool.splits outcome.splits option.splits)
  have "completionSignalCount st' =
          foldl (\<lambda>c env. if signalled parse cfg env then c + 1 else 0)
            (completionSignalCount st2) (outputs script)"
    using Cons.IH [OF rest] by simp
  then show ?case using st2 x by (simp add: outputs_def)
qed

text \<open>
  C5.  The completion phrase is found exactly when it is not empty and occurs in the
  output as a contiguous run of the same bytes.  A cycle that reaches the agent sets the
  counter to its old value plus one when the phrase is found in the output and to 0 when
  it is not, so to 0 when the phrase is empty; a cycle that ends before the agent ran has
  no output and leaves the counter as it is.  For a run that starts with the counter at
  0, the counter after the last cycle is the number of outputs at the end of the run that
  all carry the phrase; so when it has reached a threshold \<open>T\<close>, the last \<open>T\<close> outputs all
  carried it.
\<close>

theorem C5_completion_signal_counter:
  "(ContainsCompletionSignal out sig \<longleftrightarrow>
      sig \<noteq> '''' \<and> (\<exists>pre post. out = pre @ sig @ post)) \<and>
   completionSignalCount (fst (snd (runIteration parse cfg st env))) =
     (if reachedAgent env
      then (if ContainsCompletionSignal (agentOutput parse env) (CompletionSignal cfg)
            then completionSignalCount st + 1 else 0)
      else completionSignalCount st) \<and>
   (CompletionSignal cfg = '''' \<and> reachedAgent env \<longrightarrow>
      completionSignalCount (fst (snd (runIteration parse cfg st env))) = 0) \<and>
   (RunLoop parse cfg st script = (StillRunning, st', acts) \<and> completionSignalCount st = 0 \<longrightarrow>
      completionSignalCount st' =
        int (length (takeWhile (signalled parse cfg) (rev (outputs script)))) \<and>
      (\<forall>T. 0 < T \<and> T \<le> completionSignalCount st' \<longrightarrow>
         nat T \<le> length (outputs script) \<and>
         (\<forall>env \<in> set (take (nat T) (rev (outputs script))). signalled parse cfg env)))"
proof -
  have one: "completionSignalCount (fst (snd (runIteration parse cfg st env))) =
     (if reachedAgent env
      then (if ContainsCompletionSignal (agentOutput parse env) (CompletionSignal cfg)
            then completionSignalCount st + 1 else 0)
      else completionSignalCount st)"
    by (simp add: runIteration_state signalled_def reachedAgent_def)
  have empty: "completionSignalCount (fst (snd (runIteration parse cfg st env))) = 0"
    if "CompletionSignal cfg = ''''" "reachedAgent env"
    using that by (simp add: one ContainsCompletionSignal_def)
  have run: "completionSignalCount st' =
        int (length (takeWhile (signalled parse cfg) (rev (outputs script)))) \<and>
      (\<forall>T. 0 < T \<and> T \<le> completionSignalCount st' \<longrightarrow>
         nat T \<le> length (outputs script) \<and>
         (\<forall>env \<in> set (take (nat T) (rev (outputs script))). signalled parse cfg env))"
    if r: "RunLoop parse cfg st script = (StillRunning, st', acts)"
      and z: "completionSignalCount st = 0"
  proof -
    let ?run = "takeWhile (signalled parse cfg) (rev (outputs script))"
    have count: "completionSignalCount st' = int (length ?run)"
      using RunLoop_count [OF r] z by (simp add: consecutive_count_zero)
    have "nat T \<le> length (outputs script) \<and>
          (\<forall>env \<in> set (take (nat T) (rev (outputs script))). signalled parse cfg env)"
      if "0 < T" "T \<le> completionSignalCount st'" for T
    proof -
      have le: "nat T \<le> length ?run" using that count by simp
      also have "length ?run \<le> length (rev (outputs script))" by (rule length_takeWhile_le)
      finally have "nat T \<le> length (outputs script)" by simp
      with takeWhile_take [OF le] show ?thesis by simp
    qed
    with count show ?thesis by blast
  qed
  from ContainsCompletionSignal_iff [of out sig] one empty run show ?thesis by blast
qed

text \<open>
  C5 at a dry run of three cycles with the phrase DONE and outputs ``all DONE'',
  ``all done'' and ``DONE now'': the counter goes 1, 0, 1.  The lower-case output does
  not match, and no output matches the empty phrase.
\<close>

theorem C5_completion_signal_counter_witness:
  "ContainsCompletionSignal ''all DONE'' ''DONE'' \<and>
   \<not> ContainsCompletionSignal ''all done'' ''DONE'' \<and>
   \<not> ContainsCompletionSignal ''all DONE'' '''' \<and>
   RunLoop (\<lambda>raw. Inr (raw, 1::real, False))
     \<lparr>MaxRuns = 5, MaxCost = 0, MaxDuration = 0, MergeStrategy = ''squash'',
      DisableCommits = False, DryRun = True, CompletionSignal = ''DONE'',
      CompletionThreshold = 2\<rparr>
     \<lparr>iteration = 0, totalCost = 0, completionSignalCount = 0, baseBranch = ''main''\<rparr>
     [(0, \<lparr>branchName = ''cc/1'', createBranch = None,
           claudeProc = \<lparr>exitErr = None, stdout = ''all DONE'', stderr = ''''\<rparr>,
           stageAll = None, hasChanges = Inr False, runCommit = None, gitPush = (\<lambda>k. None),
           createPR = Inr ''pull/1'', waitStart = 0,
           review = \<lparr>checksQ = (\<lambda>k. Inr []), decisionQ = (\<lambda>k. Inr ''''), startLag = 0,
                     lag = (\<lambda>k. 0)\<rparr>,
           mergePR = None\<rparr>),
      (1, \<lparr>branchName = ''cc/2'', createBranch = None,
           claudeProc = \<lparr>exitErr = None, stdout = ''all done'', stderr = ''''\<rparr>,
           stageAll = None, hasChanges = Inr False, runCommit = None, gitPush = (\<lambda>k. None),
           createPR = Inr ''pull/2'', waitStart = 0,
           review = \<lparr>checksQ = (\<lambda>k. Inr []), decisionQ = (\<lambda>k. Inr ''''), startLag = 0,
                     lag = (\<lambda>k. 0)\<rparr>,
           mergePR = None\<rparr>),
      (2, \<lparr>branchName = ''cc/3'', createBranch = None,
           claudeProc = \<lparr>exitErr = None, stdout = ''DONE now'', stderr = ''''\<rparr>,
           stageAll = None, hasChanges = Inr False, runCommit = None, gitPush = (\<lambda>k. None),
           createPR = Inr ''pull/3'', waitStart = 0,
           review = \<lparr>checksQ = (\<lambda>k. Inr []), decisionQ = (\<lambda>k. Inr ''''), startLag = 0,
                     lag = (\<lambda>k. 0)\<rparr>,
           mergePR = None\<rparr>)]
   = (StillRunning,
      \<lparr>iteration = 3, totalCost = 3, completionSignalCount = 1, baseBranch = ''main''\<rparr>,
      [GitCreateBranch ''cc/1'', ClaudeRun, GitSwitchBranch ''main'', GitDeleteBranch ''cc/1'',
       GitCreateBranch ''cc/2'', ClaudeRun, GitSwitchBranch ''main'', GitDeleteBranch ''cc/2'',
       GitCreateBranch ''cc/3'', ClaudeRun, GitSwitchBranch ''main'',
       GitDeleteBranch ''cc/3''])"
proof -
  have sig:
    "ContainsCompletionSignal ''all DONE'' ''DONE''"
    "\<not> ContainsCompletionSignal ''all done'' ''DONE''"
    "ContainsCompletionSignal ''DONE now'' ''DONE''"
    "\<not> ContainsCompletionSignal ''all DONE'' ''''"
    by (simp_all add: ContainsCompletionSignal_def strings_Contains_def sublist_Cons_right)
  have run: "RunLoop (\<lambda>raw. Inr (raw, 1::real, False))
     \<lparr>MaxRuns = 5, MaxCost = 0, MaxDuration = 0, MergeStrategy = ''squash'',
      DisableCommits = False, DryRun = True, CompletionSignal = ''DONE'',
      CompletionThreshold = 2\<rparr>
     \<lparr>iteration = 0, totalCost = 0, completionSignalCount = 0, baseBranch = ''main''\<rparr>
     [(0, \<lparr>branchName = ''cc/1'', createBranch = None,
           claudeProc = \<lparr>exitErr = None, stdout = ''all DONE'', stderr = ''''\<rparr>,
           stageAll = None, hasChanges = Inr False, runCommit = None, gitPush = (\<lambda>k. None),
           createPR = Inr ''pull/1'', waitStart = 0,
           review = \<lparr>checksQ = (\<lambda>k. Inr []), decisionQ = (\<lambda>k. Inr ''''), startLag = 0,
                     lag = (\<lambda>k. 0)\<rparr>,
           mergePR = None\<rparr>),
      (1, \<lparr>branchName = ''cc/2'', createBranch = None,
           claudeProc = \<lparr>exitErr = None, stdout = ''all done'', stderr = ''''\<rparr>,
           stageAll = None, hasChanges = Inr False, runCommit = None, gitPush = (\<lambda>k. None),
           createPR = Inr ''pull/2'', waitStart = 0,
           review = \<lparr>checksQ = (\<lambda>k. Inr []), decisionQ = (\<lambda>k. Inr ''''), startLag = 0,
                     lag = (\<lambda>k. 0)\<rparr>,
           mergePR = None\<rparr>),
      (2, \<lparr>branchName = ''cc/3'', createBranch = None,
           claudeProc = \<lparr>exitErr = None, stdout = ''DONE now'', stderr = ''''\<rparr>,
           stageAll = None, hasChanges = Inr False, runCommit = None, gitPush = (\<lambda>k. None),
           createPR = Inr ''pull/3'', waitStart = 0,
           review = \<lparr>checksQ = (\<lambda>k. Inr []), decisionQ = (\<lambda>k. Inr ''''), startLag = 0,
                     lag = (\<lambda>k. 0)\<rparr>,
           mergePR = None\<rparr>)]
   = (StillRunning,
      \<lparr>iteration = 3, totalCost = 3, completionSignalCount = 1, baseBranch = ''main''\<rparr>,
      [GitCreateBranch ''cc/1'', ClaudeRun, GitSwitchBranch ''main'', GitDeleteBranch ''cc/1'',
       GitCreateBranch ''cc/2'', ClaudeRun, GitSwitchBranch ''main'', GitDeleteBranch ''cc/2'',
       GitCreateBranch ''cc/3'', ClaudeRun, GitSwitchBranch ''main'',
       GitDeleteBranch ''cc/3''])"
    using sig by (simp add: runIteration_def ClientRun_def Let_def stop_defs)
  show ?thesis
    using sig(1,2,4) run
      C5_completion_signal_counter [where out = "''all DONE''" and sig = "''DONE''"
        and parse = "\<lambda>raw. Inr (raw, 1::real, False)"
        and cfg = "\<lparr>MaxRuns = 5, MaxCost = 0, MaxDuration = 0, MergeStrategy = ''squash'',
                    DisableCommits = False, DryRun = True, CompletionSignal = ''DONE'',
                    CompletionThreshold = 2\<rparr>"
        and st = "\<lparr>iteration = 0, totalCost = 0, completionSignalCount = 0,
                   baseBranch = ''main''\<rparr>"
        and env = "\<lparr>branchName = ''cc/1'', createBranch = None,
           claudeProc = \<lparr>exitErr = None, stdout = ''all DONE'', stderr = ''''\<rparr>,
           stageAll = None, hasChanges = Inr False, runCommit = None, gitPush = (\<lambda>k. None),
           createPR = Inr ''pull/1'', waitStart = 0,
           review = \<lparr>checksQ = (\<lambda>k. Inr []), decisionQ = (\<lambda>k. Inr ''''), startLag = 0,
                     lag = (\<lambda>k. 0)\<rparr>,
           mergePR = None\<rparr>"
        and script = "[(0, \<lparr>branchName = ''cc/1'', createBranch = None,
           claudeProc = \<lparr>exitErr = None, stdout = ''all DONE'', stderr = ''''\<rparr>,
           stageAll = None, hasChanges = Inr False, runCommit = None, gitPush = (\<lambda>k. None),
           createPR = Inr ''pull/1'', waitStart = 0,
           review = \<lparr>checksQ = (\<lambda>k. Inr []), decisionQ = (\<lambda>k. Inr ''''), startLag = 0,
                     lag = (\<lambda>k. 0)\<rparr>,
           mergePR = None\<rparr>),
      (1, \<lparr>branchName = ''cc/2'', createBranch = None,
           claudeProc = \<lparr>exitErr = None, stdout = ''all done'', stderr = ''''\<rparr>,
           stageAll = None, hasChanges = Inr False, runCommit = None, gitPush = (\<lambda>k. None),
           createPR = Inr ''pull/2'', waitStart = 0,
           review = \<lparr>checksQ = (\<lambda>k. Inr []), decisionQ = (\<lambda>k. Inr ''''), startLag = 0,
                     lag = (\<lambda>k. 0)\<rparr>,
           mergePR = None\<rparr>),
      (2, \<lparr>branchName = ''cc/3'', createBranch = None,
           claudeProc = \<lparr>exitErr = None, stdout = ''DONE now'', stderr = ''''\<rparr>,
           stageAll = None, hasChanges = Inr False, runCommit = None, gitPush = (\<lambda>k. None),
           createPR = Inr ''pull/3'', waitStart = 0,
           review = \<lparr>checksQ = (\<lambda>k. Inr []), decisionQ = (\<lambda>k. Inr ''''), startLag = 0,
                     lag = (\<lambda>k. 0)\<rparr>,
           mergePR = None\<rparr>)]"
        and st' = "\<lparr>iteration = 3, totalCost = 3, completionSignalCount = 1,
                    baseBranch = ''main''\<rparr>"
        and acts = "[GitCreateBranch ''cc/1'', ClaudeRun, GitSwitchBranch ''main'',
                     GitDeleteBranch ''cc/1'', GitCreateBranch ''cc/2'', ClaudeRun,
                     GitSwitchBranch ''main'', GitDeleteBranch ''cc/2'',
                     GitCreateBranch ''cc/3'', ClaudeRun, GitSwitchBranch ''main'',
                     GitDeleteBranch ''cc/3'']"]
    by blast
qed

text \<open>
  The early exits of \<^verbatim>\<open>runIteration\<close> after the agent ran.  In dry-run mode, and when
  staging leaves no changes, the driver switches back to the base branch and deletes the
  feature branch.
\<close>

lemma dry_run_discards_branch:
  assumes "createBranch env = None" "\<not> DisableCommits cfg" "DryRun cfg"
  shows "fst (runIteration parse cfg st env) = Returned None"
    and "snd (snd (runIteration parse cfg st env)) =
           [GitCreateBranch (branchName env), ClaudeRun,
            GitSwitchBranch (baseBranch st), GitDeleteBranch (branchName env)]"
proof -
  obtain r where r: "ClientRun parse (claudeProc env) = (r, None)"
    using ClientRun_pair by blast
  with assms show "fst (runIteration parse cfg st env) = Returned None"
    and "snd (snd (runIteration parse cfg st env)) =
           [GitCreateBranch (branchName env), ClaudeRun,
            GitSwitchBranch (baseBranch st), GitDeleteBranch (branchName env)]"
    by (simp_all add: runIteration_def Let_def)
qed

lemma no_changes_discards_branch:
  assumes "createBranch env = None" "\<not> DisableCommits cfg" "\<not> DryRun cfg"
    and "stageAll env = None" "hasChanges env = Inr False"
  shows "fst (runIteration parse cfg st env) = Returned None"
    and "snd (snd (runIteration parse cfg st env)) =
           [GitCreateBranch (branchName env), ClaudeRun, GitStageAll, GitHasChanges,
            GitSwitchBranch (baseBranch st), GitDeleteBranch (branchName env)]"
proof -
  obtain r where r: "ClientRun parse (claudeProc env) = (r, None)"
    using ClientRun_pair by blast
  with assms show "fst (runIteration parse cfg st env) = Returned None"
    and "snd (snd (runIteration parse cfg st env)) =
           [GitCreateBranch (branchName env), ClaudeRun, GitStageAll, GitHasChanges,
            GitSwitchBranch (baseBranch st), GitDeleteBranch (branchName env)]"
    by (simp_all add: runIteration_def Let_def)
qed

text \<open>
  C8 on the code.  With \<^verbatim>\<open>DisableCommits\<close> set, an iteration whose branch was created ends
  right after the agent ran: nothing is staged, committed, published or opened for
  review, but the driver neither switches back to the base branch nor deletes the feature
  branch, as it does on the two other early exits.
\<close>

theorem C8_disable_commits_keeps_branch:
  "createBranch env = None \<and> DisableCommits cfg \<longrightarrow>
     fst (runIteration parse cfg st env) = Returned None \<and>
     snd (snd (runIteration parse cfg st env)) = [GitCreateBranch (branchName env), ClaudeRun] \<and>
     GitSwitchBranch (baseBranch st) \<notin> set (snd (snd (runIteration parse cfg st env))) \<and>
     GitDeleteBranch (branchName env) \<notin> set (snd (snd (runIteration parse cfg st env)))"
proof -
  obtain r where r: "ClientRun parse (claudeProc env) = (r, None)"
    using ClientRun_pair by blast
  then show ?thesis by (simp add: runIteration_def Let_def)
qed

text \<open>
  C8 at an iteration with \<^verbatim>\<open>DisableCommits\<close> set: the branch \<open>cc/iteration-1\<close> is created,
  the agent runs, and the iteration returns with that branch still checked out.
\<close>

theorem C8_disable_commits_keeps_branch_witness:
  "runIteration (\<lambda>raw. Inr (raw, 1::real, False))
     \<lparr>MaxRuns = 5, MaxCost = 0, MaxDuration = 0, MergeStrategy = ''squash'',
      DisableCommits = True, DryRun = False, CompletionSignal = ''DONE'',
      CompletionThreshold = 3\<rparr>
     \<lparr>iteration = 1, totalCost = 0, completionSignalCount = 0, baseBranch = ''main''\<rparr>
     \<lparr>branchName = ''cc/iteration-1'', createBranch = None,
      claudeProc = \<lparr>exitErr = None, stdout = ''edited two files'', stderr = ''''\<rparr>,
      stageAll = None, hasChanges = Inr True, runCommit = None, gitPush = (\<lambda>k. None),
      createPR = Inr ''https://github.com/o/r/pull/7'', waitStart = 0,
      review = \<lparr>checksQ = (\<lambda>k. Inr []), decisionQ = (\<lambda>k. Inr ''''), startLag = 0,
                lag = (\<lambda>k. 0)\<rparr>,
      mergePR = None\<rparr>
   = (Returned None,
      \<lparr>iteration = 1, totalCost = 1, completionSignalCount = 0, baseBranch = ''main''\<rparr>,
      [GitCreateBranch ''cc/iteration-1'', ClaudeRun])"
proof -
  have sig: "\<not> ContainsCompletionSignal ''edited two files'' ''DONE''"
    by (simp add: ContainsCompletionSignal_def strings_Contains_def sublist_Cons_right)
  show ?thesis
    using sig
      C8_disable_commits_keeps_branch [of
        "\<lparr>branchName = ''cc/iteration-1'', createBranch = None,
          claudeProc = \<lparr>exitErr = None, stdout = ''edited two files'', stderr = ''''\<rparr>,
          stageAll = None, hasChanges = Inr True, runCommit = None, gitPush = (\<lambda>k. None),
          createPR = Inr ''https://github.com/o/r/pull/7'', waitStart = 0,
          review = \<lparr>checksQ = (\<lambda>k. Inr []), decisionQ = (\<lambda>k. Inr ''''), startLag = 0,
                    lag = (\<lambda>k. 0)\<rparr>,
          mergePR = None\<rparr>"
        "\<lparr>MaxRuns = 5, MaxCost = 0, MaxDuration = 0, MergeStrategy = ''squash'',
          DisableCommits = True, DryRun = False, CompletionSignal = ''DONE'',
          CompletionThreshold = 3\<rparr>"
        "\<lambda>raw. Inr (raw, 1::real, False)"
        "\<lparr>iteration = 1, totalCost = 0, completionSignalCount = 0, baseBranch = ''main''\<rparr>"]
    by (simp add: runIteration_def ClientRun_def Let_def)
qed

text \<open>
  An error that \<^verbatim>\<open>runIteration\<close> returns is logged with the iteration number, and the loop
  goes on with the next stop check.
\<close>

lemma RunLoop_logs_and_continues:
  assumes "\<not> fst (checkStopConditions cfg (st\<lparr>iteration := iteration st + 1\<rparr>) since)"
    and "runIteration parse cfg (st\<lparr>iteration := iteration st + 1\<rparr>) env =
           (Returned (Some err), st2, acts)"
    and "RunLoop parse cfg st2 script = (res, st3, rest)"
  shows "RunLoop parse cfg st ((since, env) # script) =
           (res, st3, acts @ [UiIterationFailed (iteration st2) err] @ rest)"
  using assms by (auto simp: Let_def split: prod.splits bool.splits)

lemma RunLoop_panic:
  assumes "\<not> fst (checkStopConditions cfg (st\<lparr>iteration := iteration st + 1\<rparr>) since)"
    and "fst (runIteration parse cfg (st\<lparr>iteration := iteration st + 1\<rparr>) env) = Panicked"
  shows "fst (RunLoop parse cfg st ((since, env) # script)) = Crashed"
  using assms by (auto simp: Let_def split: prod.splits bool.splits)

lemma WaitForChecks_first_poll_fails:
  assumes "checksQ env 0 = Inl err"
  shows "fst (WaitForChecks env start timeout) = None"
proof (cases "start + int (startLag env) < start + timeout")
  case True
  then show ?thesis
    using assms
    by (simp add: WaitForChecks_def Let_def WaitLoop.simps [of _ _ _ _ 0] GetPRStatus_Inl)
next
  case False
  then show ?thesis
    by (simp add: WaitForChecks_def Let_def WaitLoop_deadline)
qed

text \<open>
  C2 on the code.  When \<^verbatim>\<open>WaitForChecks\<close> returns a nil status, \<^verbatim>\<open>runIteration\<close> logs the
  error as a timeout and then reads \<^verbatim>\<open>status.HasFailedChecks\<close>: it panics.  This is what
  happens when the first query for the checks of the new pull request fails, and the
  panic ends the run: the loop does not reach its next stop check.
\<close>

theorem C2_poll_error_crashes_run:
  "(fst (WaitForChecks (review env) (waitStart env) (30 * 60 * second)) = None \<longrightarrow>
      fst (reviewAndMerge cfg st env) = Panicked) \<and>
   (createBranch env = None \<and> \<not> DisableCommits cfg \<and> \<not> DryRun cfg \<and> stageAll env = None \<and>
    hasChanges env = Inr True \<and> runCommit env = None \<and> gitPush env 0 = None \<and>
    createPR env = Inr url \<and> checksQ (review env) 0 = Inl err \<longrightarrow>
      fst (runIteration parse cfg st env) = Panicked) \<and>
   (\<not> fst (checkStopConditions cfg (st\<lparr>iteration := iteration st + 1\<rparr>) since) \<and>
    fst (runIteration parse cfg (st\<lparr>iteration := iteration st + 1\<rparr>) env) = Panicked \<longrightarrow>
      fst (RunLoop parse cfg st ((since, env) # script)) = Crashed)"
proof -
  have a: "fst (reviewAndMerge cfg st env) = Panicked"
    if "fst (WaitForChecks (review env) (waitStart env) (30 * 60 * second)) = None" for st
    using that by (auto simp: reviewAndMerge_def Let_def split: prod.splits)
  have b: "fst (runIteration parse cfg st env) = Panicked"
    if h: "createBranch env = None" "\<not> DisableCommits cfg" "\<not> DryRun cfg" "stageAll env = None"
      "hasChanges env = Inr True" "runCommit env = None" "gitPush env 0 = None"
      "createPR env = Inr url" "checksQ (review env) 0 = Inl err"
  proof -
    obtain r where r: "ClientRun parse (claudeProc env) = (r, None)"
      using ClientRun_pair by blast
    have push: "PushWithRetry (gitPush env) 3 = (None, [PushAttempt])"
      using h(7) by (simp add: PushWithRetry_def PushLoop.simps [of _ _ 0])
    have "fst (commitAndPublish cfg st' env) = Panicked" for st'
      using h(6,8) push a [OF WaitForChecks_first_poll_fails [OF h(9)], of st']
      by (auto simp: commitAndPublish_def split: prod.splits)
    then show ?thesis
      using h(1-5) r
      by (auto simp: runIteration_def Let_def split: prod.splits) (metis fst_conv)+
  qed
  from a b RunLoop_panic [of cfg st since parse env script] show ?thesis by blast
qed

text \<open>
  C2 at a run whose first iteration commits, pushes and opens a pull request, and whose
  first query for the checks fails: the iteration panics and the run has crashed, with no
  ``iteration failed'' line and no further stop check.
\<close>

theorem C2_poll_error_crashes_run_witness:
  "RunLoop (\<lambda>raw. Inr (raw, 1::real, False))
     \<lparr>MaxRuns = 5, MaxCost = 0, MaxDuration = 0, MergeStrategy = ''squash'',
      DisableCommits = False, DryRun = False, CompletionSignal = ''DONE'',
      CompletionThreshold = 3\<rparr>
     \<lparr>iteration = 0, totalCost = 0, completionSignalCount = 0, baseBranch = ''main''\<rparr>
     [(0, \<lparr>branchName = ''cc/iteration-1'', createBranch = None,
           claudeProc = \<lparr>exitErr = None, stdout = ''edited two files'', stderr = ''''\<rparr>,
           stageAll = None, hasChanges = Inr True, runCommit = None, gitPush = (\<lambda>k. None),
           createPR = Inr ''https://github.com/o/r/pull/7'', waitStart = 0,
           review = \<lparr>checksQ = (\<lambda>k. Inl ''failed to get PR checks: exit status 1''),
                     decisionQ = (\<lambda>k. Inr ''''), startLag = 0, lag = (\<lambda>k. 0)\<rparr>,
           mergePR = None\<rparr>)]
   = (Crashed,
      \<lparr>iteration = 1, totalCost = 1, completionSignalCount = 0, baseBranch = ''main''\<rparr>,
      [GitCreateBranch ''cc/iteration-1'', ClaudeRun, GitStageAll, GitHasChanges,
       ClaudeRunCommit, GitPushWithRetry [PushAttempt], GhCreatePR ''main'', GhWaitForChecks,
       UiWarningTimeout (PollFailed ''failed to get PR checks: exit status 1'')])"
proof -
  have sig: "\<not> ContainsCompletionSignal ''edited two files'' ''DONE''"
    by (simp add: ContainsCompletionSignal_def strings_Contains_def sublist_Cons_right)
  have push: "PushWithRetry (\<lambda>k. None) 3 = (None, [PushAttempt])"
    by (simp add: PushWithRetry_def PushLoop.simps [of _ _ 0])
  have wait: "WaitForChecks
                \<lparr>checksQ = (\<lambda>k. Inl ''failed to get PR checks: exit status 1''),
                 decisionQ = (\<lambda>k. Inr ''''), startLag = 0, lag = (\<lambda>k. 0)\<rparr>
                0 (30 * 60 * second)
              = (None, Some (PollFailed ''failed to get PR checks: exit status 1''), [])"
    by (simp add: WaitForChecks_def Let_def WaitLoop.simps [of _ _ _ _ 0] GetPRStatus_Inl
          second_def)
  show ?thesis
    using sig push wait
      C2_poll_error_crashes_run [of
        "\<lparr>branchName = ''cc/iteration-1'', createBranch = None,
           claudeProc = \<lparr>exitErr = None, stdout = ''edited two files'', stderr = ''''\<rparr>,
           stageAll = None, hasChanges = Inr True, runCommit = None, gitPush = (\<lambda>k. None),
           createPR = Inr ''https://github.com/o/r/pull/7'', waitStart = 0,
           review = \<lparr>checksQ = (\<lambda>k. Inl ''failed to get PR checks: exit status 1''),
                     decisionQ = (\<lambda>k. Inr ''''), startLag = 0, lag = (\<lambda>k. 0)\<rparr>,
           mergePR = None\<rparr>"
        "\<lparr>MaxRuns = 5, MaxCost = 0, MaxDuration = 0, MergeStrategy = ''squash'',
          DisableCommits = False, DryRun = False, CompletionSignal = ''DONE'',
          CompletionThreshold = 3\<rparr>"
        "\<lparr>iteration = 0, totalCost = 0, completionSignalCount = 0, baseBranch = ''main''\<rparr>"
        "''https://github.com/o/r/pull/7''" "''failed to get PR checks: exit status 1''"
        "\<lambda>raw. Inr (raw, 1::real, False)" 0 "[]"]
    by (simp add: runIteration_def commitAndPublish_def reviewAndMerge_def ClientRun_def
          Let_def stop_defs)
qed

end
